theory Spec2Isabelle
  imports Main "HOL-Library.Word" "HOL-Library.AList"
begin

unbundle bit_operations_syntax

section \<open>The git access layer of the dive log (git-access.c)\<close>

text \<open>
  C strings are modelled as \<open>string\<close> (the characters before the terminating NUL).
  Pointers into a string are indices. The helpers of the C library are written out
  where the code uses them.
\<close>

subsection \<open>Locator syntax: \<open>path[branch]\<close>\<close>

text \<open>
  \<open>strncmp(s, p, strlen(p)) == 0\<close> for a literal \<open>p\<close>: the first \<open>length p\<close>
  characters of \<open>s\<close> are \<open>p\<close>.
\<close>

definition strncmp_eq :: "string \<Rightarrow> string \<Rightarrow> bool" where
  "strncmp_eq s p = (take (length p) s = p)"

text \<open>\<open>strchr(s + from, c)\<close>: index of the first \<open>c\<close> at or after \<open>from\<close>, if any.\<close>

definition strchr_from :: "string \<Rightarrow> nat \<Rightarrow> char \<Rightarrow> nat option" where
  "strchr_from s from c =
     (if c \<in> set (drop from s) then Some (from + length (takeWhile (\<lambda>x. x \<noteq> c) (drop from s)))
      else None)"

text \<open>
  The backward scan of \<open>is_git_repository\<close>:
  \<open>while (flen && filename[--flen] != '[') blen++;\<close>
  It returns the final \<open>flen\<close> and \<open>blen\<close>.
\<close>

fun find_bracket :: "string \<Rightarrow> nat \<Rightarrow> nat \<Rightarrow> nat \<times> nat" where
  "find_bracket filename flen blen =
     (if flen = 0 then (0, blen)
      else if filename ! (flen - 1) \<noteq> CHR ''['' then find_bracket filename (flen - 1) (blen + 1)
      else (flen - 1, blen))"

declare find_bracket.simps [simp del]

text \<open>
  \<open>while (flen && filename[flen-1] == '/') { flen--; offset++; }\<close>
\<close>

fun strip_slashes :: "string \<Rightarrow> nat \<Rightarrow> nat \<Rightarrow> nat \<times> nat" where
  "strip_slashes filename flen offset =
     (if flen \<noteq> 0 \<and> filename ! (flen - 1) = CHR ''/'' then strip_slashes filename (flen - 1) (offset + 1)
      else (flen, offset))"

declare strip_slashes.simps [simp del]

text \<open>
  Lines 401 to 417 of \<open>is_git_repository\<close>: the name rules. \<open>None\<close> is the
  \<open>return NULL\<close> of lines 403 and 417; otherwise the values of \<open>flen\<close>, \<open>blen\<close>
  and \<open>offset\<close> at the point of no return.
\<close>

definition scan_locator :: "string \<Rightarrow> (nat \<times> nat \<times> nat) option" where
  "scan_locator filename =
     (let flen = length filename in
      if flen = 0 \<or> filename ! (flen - 1) \<noteq> CHR '']'' then None
      else
        let (flen, blen) = find_bracket filename (flen - 1) 0;
            (flen, offset) = strip_slashes filename flen 1
        in if flen = 0 then None else Some (flen, blen, offset))"

text \<open>
  The two strings cut out of the name at lines 434 and 438:
  \<open>"%.*s", flen, filename\<close> and \<open>"%.*s", blen, filename + flen + offset\<close>.
\<close>

definition loc_of :: "string \<Rightarrow> nat \<Rightarrow> string" where
  "loc_of filename flen = take flen filename"

definition branch_of :: "string \<Rightarrow> nat \<Rightarrow> nat \<Rightarrow> nat \<Rightarrow> string" where
  "branch_of filename flen blen offset = take blen (drop (flen + offset) filename)"

definition parse_locator :: "string \<Rightarrow> (string \<times> string) option" where
  "parse_locator filename =
     (case scan_locator filename of
        None \<Rightarrow> None
      | Some (flen, blen, offset) \<Rightarrow>
          Some (loc_of filename flen, branch_of filename flen blen offset))"

text \<open>Trailing path separators removed, as a function on the path alone.\<close>

definition strip_trailing :: "string \<Rightarrow> string" where
  "strip_trailing p = rev (dropWhile (\<lambda>c. c = CHR ''/'') (rev p))"

subsection \<open>Scheme detection\<close>

definition is_lower :: "char \<Rightarrow> bool" where
  "is_lower c = ((97::nat) \<le> of_char c \<and> of_char c \<le> (122::nat))"

text \<open>
  Lines 327 to 334 of \<open>is_remote_git_repository\<close>:
  \<open>while ((c = *p++) >= 'a' && c <= 'z');  if (c != ':') return NULL;
  if (*p++ != '/' || *p++ != '/') return NULL;\<close>
  The character that ends the loop may be the terminating NUL (the empty rest).
\<close>

definition has_remote_scheme :: "string \<Rightarrow> bool" where
  "has_remote_scheme remote =
     (case dropWhile is_lower remote of
        [] \<Rightarrow> False
      | c # p \<Rightarrow> c = CHR '':'' \<and> take 2 p = ''//'')"

text \<open>
  Lines 368 to 382 of \<open>is_remote_git_repository\<close>: the user name in an
  \<open>https://\<close> URL. The result is the buffer after the \<open>memmove\<close> and the string
  duplicated by \<open>strndup(remote + 8, at - remote - 8)\<close>, if that ran.
\<close>

definition strip_username :: "string \<Rightarrow> string \<times> string option" where
  "strip_username remote =
     (if strncmp_eq remote ''https://'' then
        (case strchr_from remote 0 CHR ''@'' of
           None \<Rightarrow> (remote, None)
         | Some at \<Rightarrow>
             (case strchr_from remote 8 CHR ''/'' of
                None \<Rightarrow> (remote, None)
              | Some slash \<Rightarrow>
                  if slash > at
                  then (take 8 remote @ drop (at + 1) remote, Some (take (at - 8) (drop 8 remote)))
                  else (remote, None)))
      else (remote, None))"

subsection \<open>SHA-1 (the digest of the C library, FIPS 180-4)\<close>

text \<open>
  \<open>SHA1_Init\<close>, \<open>SHA1_Update\<close> and \<open>SHA1_Final\<close> come from the C library; together
  they compute the SHA-1 digest of the bytes given to the updates, in order. The digest is
  written out after the standard: padding to 64-byte blocks, the message schedule, 80
  rounds for each block.
\<close>

type_synonym u8 = "8 word"
type_synonym u32 = "32 word"

definition rol :: "nat \<Rightarrow> u32 \<Rightarrow> u32" where
  "rol n x = push_bit n x OR drop_bit (32 - n) x"

definition be32 :: "u8 \<Rightarrow> u8 \<Rightarrow> u8 \<Rightarrow> u8 \<Rightarrow> u32" where
  "be32 a b c d = push_bit 24 (ucast a) OR push_bit 16 (ucast b) OR push_bit 8 (ucast c) OR ucast d"

fun words_of :: "u8 list \<Rightarrow> u32 list" where
  "words_of (a # b # c # d # r) = be32 a b c d # words_of r"
| "words_of _ = []"

definition len_bytes :: "64 word \<Rightarrow> u8 list" where
  "len_bytes n =
     [ucast (drop_bit 56 n), ucast (drop_bit 48 n), ucast (drop_bit 40 n), ucast (drop_bit 32 n),
      ucast (drop_bit 24 n), ucast (drop_bit 16 n), ucast (drop_bit 8 n), ucast n]"

definition sha1_pad :: "u8 list \<Rightarrow> u8 list" where
  "sha1_pad m =
     m @ [0x80] @ replicate ((119 - length m mod 64) mod 64) 0 @ len_bytes (of_nat (8 * length m))"

definition sha1_f :: "nat \<Rightarrow> u32 \<Rightarrow> u32 \<Rightarrow> u32 \<Rightarrow> u32" where
  "sha1_f t b c d =
     (if t < 20 then (b AND c) OR (NOT b AND d)
      else if t < 40 then b XOR c XOR d
      else if t < 60 then (b AND c) OR (b AND d) OR (c AND d)
      else b XOR c XOR d)"

definition sha1_k :: "nat \<Rightarrow> u32" where
  "sha1_k t =
     (if t < 20 then 0x5A827999 else if t < 40 then 0x6ED9EBA1
      else if t < 60 then 0x8F1BBCDC else 0xCA62C1D6)"

text \<open>The message schedule, newest word first: \<open>n\<close> more words are added.\<close>

fun sha1_sched :: "nat \<Rightarrow> u32 list \<Rightarrow> u32 list" where
  "sha1_sched n ws =
     (if n = 0 then ws
      else sha1_sched (n - 1) (rol 1 (ws ! 2 XOR ws ! 7 XOR ws ! 13 XOR ws ! 15) # ws))"

declare sha1_sched.simps [simp del]

type_synonym sha1_state = "u32 \<times> u32 \<times> u32 \<times> u32 \<times> u32"

fun sha1_rounds :: "nat \<Rightarrow> u32 list \<Rightarrow> sha1_state \<Rightarrow> sha1_state" where
  "sha1_rounds t [] s = s"
| "sha1_rounds t (w # ws) (a, b, c, d, e) =
     sha1_rounds (t + 1) ws (rol 5 a + sha1_f t b c d + e + sha1_k t + w, a, rol 30 b, c, d)"

definition sha1_block :: "sha1_state \<Rightarrow> u32 list \<Rightarrow> sha1_state" where
  "sha1_block h ws =
     (case h of (h0, h1, h2, h3, h4) \<Rightarrow>
      case sha1_rounds 0 (rev (sha1_sched 64 (rev ws))) h of
        (a, b, c, d, e) \<Rightarrow> (h0 + a, h1 + b, h2 + c, h3 + d, h4 + e))"

fun sha1_blocks :: "sha1_state \<Rightarrow> u32 list \<Rightarrow> sha1_state" where
  "sha1_blocks h ws =
     (if length ws < 16 then h else sha1_blocks (sha1_block h (take 16 ws)) (drop 16 ws))"

declare sha1_blocks.simps [simp del]

definition bytes_of :: "u32 \<Rightarrow> u8 list" where
  "bytes_of w = [ucast (drop_bit 24 w), ucast (drop_bit 16 w), ucast (drop_bit 8 w), ucast w]"

definition SHA1 :: "u8 list \<Rightarrow> u8 list" where
  "SHA1 m =
     (case sha1_blocks (0x67452301, 0xEFCDAB89, 0x98BADCFE, 0x10325476, 0xC3D2E1F0)
             (words_of (sha1_pad m)) of
        (a, b, c, d, e) \<Rightarrow> bytes_of a @ bytes_of b @ bytes_of c @ bytes_of d @ bytes_of e)"

text \<open>The bytes of a C string, and \<open>%02x\<close> of one byte.\<close>

definition bytes :: "string \<Rightarrow> u8 list" where
  "bytes s = map of_char s"

definition hex_digit :: "nat \<Rightarrow> char" where
  "hex_digit n = ''0123456789abcdef'' ! (n mod 16)"

definition hex2 :: "u8 \<Rightarrow> string" where
  "hex2 b = [hex_digit (unat b div 16), hex_digit (unat b mod 16)]"

subsection \<open>The repository, the backend and the world\<close>

type_synonym git_oid = nat

datatype git_ref_target = Direct git_oid | Symbolic string

record git_reference =
  ref_name :: string
  ref_target :: git_ref_target

datatype remote_type = OTHER | HTTPS | SSH

datatype file_kind = S_IFDIR | S_IFREG

text \<open>
  What the code reads and writes of a repository through libgit2: whether it is bare,
  the branch \<open>HEAD\<close> names, the references, the upstream of each branch, the remotes,
  the status entries that \<open>git_status_foreach\<close> enumerates, the commit in the working
  tree and the configuration.
\<close>

record git_repository =
  is_bare :: bool
  head_ref :: "string option"
  refs :: "(string \<times> git_ref_target) list"
  upstreams :: "(string \<times> string) list"
  remotes :: "(string \<times> string) list"
  status :: "(string \<times> 32 word) list"
  worktree :: "git_oid option"
  config :: "(string \<times> string) list"

datatype git_cred =
  Cred_ssh_key "string option" "string option" string
| Cred_userpass_plaintext "string option" string

datatype net_call =
  Net_fetch string "git_cred option"
| Net_push string string "git_cred option"
| Net_clone string string string "git_cred option"

datatype alloc_site = Alloc_localdir | Alloc_loc | Alloc_branch | Alloc_priv_key

text \<open>
  What is outside git-access.c and fixed during a call. From the rest of the program
  (declared in dive.h and membuffer.h): the directory that \<open>system_default_directory\<close>
  returns, the proxy that \<open>getProxyString\<close> finds, which allocation of
  \<open>format_string\<close> fails, and the value that \<open>report_error\<close> returns. From the
  build: the switch \<open>USE_LIBGIT23_API\<close>. From libgit2 (a failure is \<open>None\<close> or
  \<open>True\<close>): the last error text, the user name it reads from a URL, the merge base,
  whether the update of a reference, the lookup of a commit and the reset fail, and the
  repository after a fetch, after a push and after a clone.
\<close>

record env =
  USE_LIBGIT23_API :: bool
  system_default_directory :: string
  proxy_string :: "string option"
  alloc_fails :: "alloc_site \<Rightarrow> bool"
  giterr_last :: string
  report_error_returns :: int
  url_username :: "string \<Rightarrow> string option"
  merge_base :: "git_oid \<Rightarrow> git_oid \<Rightarrow> git_oid option"
  set_target_fails :: bool
  object_lookup_fails :: bool
  reset_fails :: bool
  fetch_result :: "git_repository \<Rightarrow> git_repository option"
  push_result :: "git_repository \<Rightarrow> git_repository option"
  clone_result :: "string \<Rightarrow> string \<Rightarrow> git_repository option"

text \<open>
  The global preferences. The code names two fields; every other field of the C struct
  is in the extension of the record.
\<close>

record prefs =
  cloud_storage_email_encoded :: "string option"
  cloud_storage_password :: "string option"

text \<open>
  What changes: the preferences, the messages given to \<open>report_error\<close>, the network
  operations asked of libgit2 (with the credentials its callback supplies), the kinds of
  the files that \<open>stat\<close> sees and the repositories on disk.
\<close>

record 'a world =
  prefs :: "'a prefs_scheme"
  reports :: "string list"
  net :: "net_call list"
  fs :: "(string \<times> file_kind) list"
  repos :: "(string \<times> git_repository) list"

text \<open>
  \<open>report_error\<close> records the message. Its result, \<open>report_error_returns\<close>, is
  written at each \<open>return report_error(...)\<close>.
\<close>

definition report_error :: "string \<Rightarrow> 'a world \<Rightarrow> 'a world" where
  "report_error msg w = w\<lparr>reports := reports w @ [msg]\<rparr>"

definition format_string :: "env \<Rightarrow> alloc_site \<Rightarrow> string \<Rightarrow> string option" where
  "format_string e site s = (if alloc_fails e site then None else Some s)"

subsection \<open>Cache address\<close>

definition get_local_dir :: "env \<Rightarrow> string \<Rightarrow> string \<Rightarrow> string option" where
  "get_local_dir e remote branch =
     (let hash = SHA1 (bytes remote @ [0] @ bytes branch)
      in format_string e Alloc_localdir
           (system_default_directory e @ ''/'' @ concat (map hex2 (take 8 hash))))"

subsection \<open>Cleanliness\<close>

text \<open>
  The two status flags are those of libgit2 (git2/status.h): \<open>GIT_STATUS_CURRENT = 0\<close>
  and \<open>GIT_STATUS_IGNORED = (1u << 14)\<close>. The callback gets the flags as an
  \<open>unsigned int\<close>.
\<close>

definition GIT_STATUS_CURRENT :: "32 word" where
  "GIT_STATUS_CURRENT = 0"

definition GIT_STATUS_IGNORED :: "32 word" where
  "GIT_STATUS_IGNORED = push_bit 14 1"

definition check_clean :: "string \<Rightarrow> 32 word \<Rightarrow> 'a world \<Rightarrow> int \<times> 'a world" where
  "check_clean path st w =
     (let st = st AND (NOT GIT_STATUS_CURRENT OR GIT_STATUS_IGNORED)
      in if st = 0 then (0, w)
         else (1, report_error (''WARNING: Git cache directory modified (path '' @ path @ '')'') w))"

text \<open>
  \<open>git_status_foreach\<close> calls the callback on each entry and stops at the first call
  that does not return 0, returning that value.
\<close>

fun status_foreach ::
  "(string \<times> 32 word) list \<Rightarrow> (string \<Rightarrow> 32 word \<Rightarrow> 'a world \<Rightarrow> int \<times> 'a world) \<Rightarrow> 'a world \<Rightarrow> int \<times> 'a world" where
  "status_foreach [] cb w = (0, w)"
| "status_foreach ((path, st) # es) cb w =
     (case cb path st w of (rc, w') \<Rightarrow> if rc \<noteq> 0 then (rc, w') else status_foreach es cb w')"

definition git_status_foreach ::
  "git_repository \<Rightarrow> (string \<Rightarrow> 32 word \<Rightarrow> 'a world \<Rightarrow> int \<times> 'a world) \<Rightarrow> 'a world \<Rightarrow> int \<times> 'a world" where
  "git_status_foreach repo cb w = status_foreach (status repo) cb w"

text \<open>
  The predicate as the specification words it: dirty when some entry has a flag outside
  current and ignored.
\<close>

definition spec_dirty :: "(string \<times> 32 word) list \<Rightarrow> bool" where
  "spec_dirty es = list_ex (\<lambda>(path, st). st AND NOT (GIT_STATUS_CURRENT OR GIT_STATUS_IGNORED) \<noteq> 0) es"

subsection \<open>The libgit2 calls on references\<close>

definition git_reference_cmp :: "git_reference \<Rightarrow> git_reference \<Rightarrow> int" where
  "git_reference_cmp a b = (if ref_target a = ref_target b then 0 else 1)"

definition git_reference_target :: "git_reference \<Rightarrow> git_oid option" where
  "git_reference_target r = (case ref_target r of Direct oid \<Rightarrow> Some oid | Symbolic _ \<Rightarrow> None)"

definition git_branch_is_head :: "git_repository \<Rightarrow> git_reference \<Rightarrow> int" where
  "git_branch_is_head repo r = (if head_ref repo = Some (ref_name r) then 1 else 0)"

definition git_reference_set_target :: "git_repository \<Rightarrow> git_reference \<Rightarrow> git_oid \<Rightarrow> git_repository" where
  "git_reference_set_target repo r oid =
     repo\<lparr>refs := AList.update (ref_name r) (Direct oid) (refs repo)\<rparr>"

text \<open>\<open>git_reset(repo, target, GIT_RESET_HARD, ...)\<close>: the branch of \<open>HEAD\<close> and the working tree.\<close>

definition git_reset_hard :: "git_repository \<Rightarrow> git_oid \<Rightarrow> git_repository" where
  "git_reset_hard repo oid =
     repo\<lparr>refs := (case head_ref repo of
                    Some h \<Rightarrow> AList.update h (Direct oid) (refs repo)
                  | None \<Rightarrow> refs repo),
          status := [],
          worktree := Some oid\<rparr>"

definition git_branch_lookup :: "git_repository \<Rightarrow> string \<Rightarrow> git_reference option" where
  "git_branch_lookup repo branch =
     (case map_of (refs repo) (''refs/heads/'' @ branch) of
        None \<Rightarrow> None
      | Some t \<Rightarrow> Some \<lparr>ref_name = ''refs/heads/'' @ branch, ref_target = t\<rparr>)"

definition git_branch_upstream :: "git_repository \<Rightarrow> git_reference \<Rightarrow> git_reference option" where
  "git_branch_upstream repo r =
     (case map_of (upstreams repo) (ref_name r) of
        None \<Rightarrow> None
      | Some n \<Rightarrow>
          (case map_of (refs repo) n of
             None \<Rightarrow> None
           | Some t \<Rightarrow> Some \<lparr>ref_name = n, ref_target = t\<rparr>))"

definition git_remote_lookup :: "git_repository \<Rightarrow> string \<Rightarrow> string option" where
  "git_remote_lookup repo name = map_of (remotes repo) name"

definition git_config_set_string :: "git_repository \<Rightarrow> string \<Rightarrow> string \<Rightarrow> git_repository" where
  "git_config_set_string repo k v = repo\<lparr>config := AList.update k v (config repo)\<rparr>"

definition git_repository_open :: "'a world \<Rightarrow> string \<Rightarrow> git_repository option" where
  "git_repository_open w path = map_of (repos w) path"

definition stat :: "'a world \<Rightarrow> string \<Rightarrow> file_kind option" where
  "stat w path = map_of (fs w) path"

text \<open>The repository behind a handle is changed in place: the change is written back.\<close>

definition store_repo :: "string \<Rightarrow> git_repository \<Rightarrow> 'a world \<Rightarrow> 'a world" where
  "store_repo path repo w = w\<lparr>repos := AList.update path repo (repos w)\<rparr>"

subsection \<open>Credentials\<close>

type_synonym 'a cred_cb = "env \<Rightarrow> 'a world \<Rightarrow> string \<Rightarrow> string option \<Rightarrow> git_cred"

definition credential_ssh_cb :: "'a cred_cb" where
  "credential_ssh_cb e w url username_from_url =
     (let priv_key = format_string e Alloc_priv_key (system_default_directory e @ ''/'' @ ''ssrf_remote.key'');
          passphrase = (case cloud_storage_password (prefs w) of Some p \<Rightarrow> p | None \<Rightarrow> [])
      in Cred_ssh_key username_from_url priv_key passphrase)"

definition credential_https_cb :: "'a cred_cb" where
  "credential_https_cb e w url username_from_url =
     (let username = cloud_storage_email_encoded (prefs w);
          password = (case cloud_storage_password (prefs w) of Some p \<Rightarrow> p | None \<Rightarrow> [])
      in Cred_userpass_plaintext username password)"

text \<open>The credentials libgit2 gets from the callback of a network operation on \<open>url\<close>.\<close>

definition supplied :: "env \<Rightarrow> 'a world \<Rightarrow> string \<Rightarrow> 'a cred_cb option \<Rightarrow> git_cred option" where
  "supplied e w url cb = (case cb of None \<Rightarrow> None | Some f \<Rightarrow> Some (f e w url (url_username e url)))"

text \<open>The callback chosen under \<open>USE_LIBGIT23_API\<close> for a remote type.\<close>

definition callback_for :: "env \<Rightarrow> remote_type \<Rightarrow> 'a cred_cb option" where
  "callback_for e rt =
     (if USE_LIBGIT23_API e then
        (if rt = SSH then Some credential_ssh_cb
         else if rt = HTTPS then Some credential_https_cb
         else None)
      else None)"

text \<open>\<open>ssh://\<close>, \<open>https://\<close> or another remote, as lines 236 to 241 and 285 to 288 test it.\<close>

definition remote_type_of :: "string \<Rightarrow> remote_type" where
  "remote_type_of remote =
     (if strncmp_eq remote ''ssh://'' then SSH
      else if strncmp_eq remote ''https://'' then HTTPS
      else OTHER)"

subsection \<open>The sync engine\<close>

definition reset_to_remote ::
  "env \<Rightarrow> git_repository \<Rightarrow> git_reference \<Rightarrow> git_oid \<Rightarrow> 'a world \<Rightarrow> int \<times> git_repository \<times> 'a world" where
  "reset_to_remote e repo local new_id w =
     (if is_bare repo \<or> git_branch_is_head repo local \<noteq> 1 then
        (if set_target_fails e
         then (report_error_returns e, repo, report_error ''Could not update local ref to newer remote ref'' w)
         else (0, git_reference_set_target repo local new_id,
               report_error ''Updated local branch from remote'' w))
      else if object_lookup_fails e
        then (report_error_returns e, repo, report_error ''Could not look up remote commit'' w)
      else if reset_fails e
        then (report_error_returns e, repo, report_error ''Local head checkout failed after update'' w)
      else (0, git_reset_hard repo new_id, report_error ''Updated local information from remote'' w))"

definition update_remote ::
  "env \<Rightarrow> git_repository \<Rightarrow> string \<Rightarrow> git_reference \<Rightarrow> git_reference \<Rightarrow> remote_type \<Rightarrow> 'a world
    \<Rightarrow> int \<times> git_repository \<times> 'a world" where
  "update_remote e repo origin local remote rt w =
     (let name = ref_name local;
          w = w\<lparr>net := net w @ [Net_push origin name (supplied e w origin (callback_for e rt))]\<rparr>
      in case push_result e repo of
           None \<Rightarrow>
             (report_error_returns e, repo,
              report_error (''Unable to update remote with current local cache state ('' @ giterr_last e @ '')'') w)
         | Some repo' \<Rightarrow> (0, repo', report_error ''Local cache more recent than remote'' w))"

definition try_to_update ::
  "env \<Rightarrow> git_repository \<Rightarrow> string \<Rightarrow> git_reference \<Rightarrow> git_reference \<Rightarrow> remote_type \<Rightarrow> 'a world
    \<Rightarrow> int \<times> git_repository \<times> 'a world" where
  "try_to_update e repo origin local remote rt w =
     (if git_reference_cmp local remote = 0 then (0, repo, w)
      else
        case git_status_foreach repo check_clean w of
          (rc, w) \<Rightarrow>
            if rc \<noteq> 0 then (report_error_returns e, repo, report_error ''local cached copy is dirty, skipping update'' w)
            else
              (case (git_reference_target local, git_reference_target remote) of
                 (Some local_id, Some remote_id) \<Rightarrow>
                   (case merge_base e local_id remote_id of
                      None \<Rightarrow>
                        (report_error_returns e, repo,
                         report_error ''Unable to find common commit of local and remote branches'' w)
                    | Some base \<Rightarrow>
                        if base = local_id then reset_to_remote e repo local remote_id w
                        else if base = remote_id then update_remote e repo origin local remote rt w
                        else if is_bare repo then
                          (report_error_returns e, repo,
                           report_error ''Local and remote have diverged, merge of bare branch needed'' w)
                        else if git_branch_is_head repo local \<noteq> 1 then
                          (report_error_returns e, repo,
                           report_error
                             ''Local and remote do not match, local branch not HEAD - cannot update'' w)
                        else
                          (report_error_returns e, repo, report_error ''Local and remote have diverged, need to merge'' w))
               | _ \<Rightarrow> (report_error_returns e, repo, report_error ''Unable to get local or remote SHA1'' w)))"

text \<open>\<open>check_remote_status\<close> has no value that its caller reads.\<close>

definition check_remote_status ::
  "env \<Rightarrow> git_repository \<Rightarrow> string \<Rightarrow> string \<Rightarrow> remote_type \<Rightarrow> 'a world \<Rightarrow> git_repository \<times> 'a world" where
  "check_remote_status e repo origin branch rt w =
     (case git_branch_lookup repo branch of
        None \<Rightarrow> (repo, report_error (''Git cache branch '' @ branch @ '' no longer exists'') w)
      | Some local_ref \<Rightarrow>
          (case git_branch_upstream repo local_ref of
             None \<Rightarrow>
               (repo,
                report_error (''Git cache branch '' @ branch @ '' no longer has an upstream branch'') w)
           | Some remote_ref \<Rightarrow>
               (case try_to_update e repo origin local_ref remote_ref rt w of
                  (rc, repo', w') \<Rightarrow> (repo', w'))))"

subsection \<open>Getting the local cache of a remote\<close>

definition update_local_repo ::
  "env \<Rightarrow> string \<Rightarrow> string \<Rightarrow> string \<Rightarrow> 'a world \<Rightarrow> string option \<times> 'a world" where
  "update_local_repo e localdir remote branch w =
     (case git_repository_open w localdir of
        None \<Rightarrow>
          (None,
           report_error (''Unable to open git cache repository at '' @ localdir @ '': '' @ giterr_last e) w)
      | Some repo \<Rightarrow>
          let rt = remote_type_of remote;
              repo = (if rt = HTTPS then
                        (case proxy_string e of
                           Some p \<Rightarrow> git_config_set_string repo ''http.proxy'' p
                         | None \<Rightarrow> repo)
                      else repo)
          in case git_remote_lookup repo ''origin'' of
               None \<Rightarrow>
                 (Some localdir,
                  store_repo localdir repo
                    (report_error
                       (''Repository '' @ [CHR 0x27] @ remote @ [CHR 0x27] @ '' origin lookup failed (''
                          @ giterr_last e @ '')'') w))
             | Some origin \<Rightarrow>
                 let w = w\<lparr>net := net w @ [Net_fetch origin (supplied e w origin (callback_for e rt))]\<rparr>
                 in case fetch_result e repo of
                      None \<Rightarrow>
                        (Some localdir,
                         store_repo localdir repo
                           (report_error (''Unable to fetch remote '' @ [CHR 0x27] @ remote @ [CHR 0x27]) w))
                    | Some repo \<Rightarrow>
                        (case check_remote_status e repo origin branch rt w of
                           (repo, w) \<Rightarrow> (Some localdir, store_repo localdir repo w)))"

definition create_local_repo ::
  "env \<Rightarrow> string \<Rightarrow> string \<Rightarrow> string \<Rightarrow> 'a world \<Rightarrow> string option \<times> 'a world" where
  "create_local_repo e localdir remote branch w =
     (let rt = remote_type_of remote;
          w = w\<lparr>net := net w @ [Net_clone remote localdir branch (supplied e w remote (callback_for e rt))]\<rparr>
      in case clone_result e remote branch of
           None \<Rightarrow>
             (None, report_error (''git clone of '' @ remote @ '' failed ('' @ giterr_last e @ '')'') w)
         | Some repo \<Rightarrow>
             (Some localdir,
              w\<lparr>fs := AList.update localdir S_IFDIR (fs w),
                repos := AList.update localdir repo (repos w)\<rparr>))"

definition get_remote_repo ::
  "env \<Rightarrow> string \<Rightarrow> string \<Rightarrow> string \<Rightarrow> 'a world \<Rightarrow> string option \<times> 'a world" where
  "get_remote_repo e localdir remote branch w =
     (case stat w localdir of
        Some kind \<Rightarrow>
          if kind \<noteq> S_IFDIR
          then (None, report_error (''local git cache at '' @ [CHR 0x27] @ ''%s'' @ [CHR 0x27] @ '' is corrupt'') w)
          else update_local_repo e localdir remote branch w
      | None \<Rightarrow> create_local_repo e localdir remote branch w)"

text \<open>
  \<open>is_remote_git_repository\<close> changes its buffer in place; the buffer after the call is
  the second component of the result.
\<close>

definition is_remote_git_repository ::
  "env \<Rightarrow> string \<Rightarrow> string \<Rightarrow> 'a world \<Rightarrow> string option \<times> string \<times> 'a world" where
  "is_remote_git_repository e buf branch w =
     (if \<not> has_remote_scheme buf then (None, buf, w)
      else
        let skip = (if strncmp_eq buf ''file://'' then 7 else 0);
            (remote, user) = strip_username (drop skip buf);
            w = (case user of
                   None \<Rightarrow> w
                 | Some u \<Rightarrow> w\<lparr>prefs := (prefs w)\<lparr>cloud_storage_email_encoded := Some u\<rparr>\<rparr>);
            buf = take skip buf @ remote
        in case get_local_dir e remote branch of
             None \<Rightarrow> (None, buf, w)
           | Some localdir \<Rightarrow>
               (case get_remote_repo e localdir remote branch w of
                  (r, w) \<Rightarrow> (r, buf, w)))"

subsection \<open>The entry point\<close>

text \<open>
  A \<open>struct git_repository *\<close>: NULL, the distinguished \<open>dummy_git_repository\<close> (declared
  in dive.h) or an open repository, named by the path at which it was opened.
\<close>

datatype repo_ptr = NULL | dummy_git_repository | Repo string

text \<open>
  The result is the returned pointer, the value written to \<open>*branchp\<close> (\<open>None\<close> when
  nothing is written) and the world.
\<close>

definition is_git_repository ::
  "env \<Rightarrow> string \<Rightarrow> 'a world \<Rightarrow> repo_ptr \<times> string option \<times> 'a world" where
  "is_git_repository e filename w =
     (case scan_locator filename of
        None \<Rightarrow> (NULL, None, w)
      | Some (flen, blen, offset) \<Rightarrow>
          (case format_string e Alloc_loc (loc_of filename flen) of
             None \<Rightarrow> (dummy_git_repository, Some filename, w)
           | Some loc \<Rightarrow>
               (case format_string e Alloc_branch (branch_of filename flen blen offset) of
                  None \<Rightarrow> (dummy_git_repository, Some filename, w)
                | Some branch \<Rightarrow>
                    (case is_remote_git_repository e loc branch w of
                       (Some repo, loc, w) \<Rightarrow> (Repo repo, Some branch, w)
                     | (None, loc, w) \<Rightarrow>
                         (case stat w loc of
                            Some S_IFDIR \<Rightarrow>
                              (case git_repository_open w loc of
                                 None \<Rightarrow> (dummy_git_repository, Some filename, w)
                               | Some r \<Rightarrow> (Repo loc, Some branch, w))
                          | _ \<Rightarrow> (dummy_git_repository, Some filename, w))))))"

subsection \<open>Credentials of the network operations\<close>

definition call_cred :: "net_call \<Rightarrow> git_cred option" where
  "call_cred c =
     (case c of
        Net_fetch url cr \<Rightarrow> cr
      | Net_push url name cr \<Rightarrow> cr
      | Net_clone url dir branch cr \<Rightarrow> cr)"

text \<open>
  From the world \<open>w\<close> to the world \<open>w'\<close> the preferences are the same and each network
  operation that was added carries what the HTTPS callback supplies in \<open>w\<close>.
\<close>

definition https_calls :: "env \<Rightarrow> 'a world \<Rightarrow> 'a world \<Rightarrow> bool" where
  "https_calls e w w' =
     (prefs w' = prefs w \<and>
      take (length (net w)) (net w') = net w \<and>
      list_all (\<lambda>c. call_cred c = Some (credential_https_cb e w [] None)) (drop (length (net w)) (net w')))"

subsection \<open>Example inputs\<close>

text \<open>
  A backend in which every call succeeds (no clone is available), with a linear history:
  of two commits the older one has the smaller number and is their merge base.
\<close>

definition env0 :: env where
  "env0 =
     \<lparr>USE_LIBGIT23_API = True,
      system_default_directory = ''/home/diver/.subsurface'',
      proxy_string = None,
      alloc_fails = (\<lambda>site. False),
      giterr_last = ''libgit2 error'',
      report_error_returns = - 1,
      url_username = (\<lambda>url. None),
      merge_base = (\<lambda>a b. Some (min a b)),
      set_target_fails = False,
      object_lookup_fails = False,
      reset_fails = False,
      fetch_result = (\<lambda>repo. Some repo),
      push_result = (\<lambda>repo. Some repo),
      clone_result = (\<lambda>url branch. None)\<rparr>"

definition local0 :: git_reference where
  "local0 = \<lparr>ref_name = ''refs/heads/master'', ref_target = Direct 1\<rparr>"

definition remote0 :: git_reference where
  "remote0 = \<lparr>ref_name = ''refs/remotes/origin/master'', ref_target = Direct 2\<rparr>"

text \<open>A clean repository with \<open>master\<close> checked out at commit 1 and its upstream at commit 2.\<close>

definition repo0 :: git_repository where
  "repo0 =
     \<lparr>is_bare = False,
      head_ref = Some ''refs/heads/master'',
      refs = [(''refs/heads/master'', Direct 1), (''refs/remotes/origin/master'', Direct 2)],
      upstreams = [(''refs/heads/master'', ''refs/remotes/origin/master'')],
      remotes = [(''origin'', ''https://example.com/repo'')],
      status = [],
      worktree = Some 1,
      config = []\<rparr>"

definition world0 :: "unit world" where
  "world0 =
     \<lparr>prefs = \<lparr>cloud_storage_email_encoded = None, cloud_storage_password = Some ''secret''\<rparr>,
      reports = [],
      net = [],
      fs = [],
      repos = []\<rparr>"

subsection \<open>Lemmas on the scan\<close>

lemma find_bracket_none:
  "CHR ''['' \<notin> set (take n f) \<Longrightarrow> n \<le> length f \<Longrightarrow> find_bracket f n k = (0, k + n)"
proof (induction n arbitrary: k)
  case 0
  then show ?case by (simp add: find_bracket.simps)
next
  case (Suc n)
  have "f ! n \<in> set (take (Suc n) f)"
    using Suc.prems(2) by (simp add: take_Suc_conv_app_nth)
  with Suc.prems(1) have ne: "f ! n \<noteq> CHR ''[''" by metis
  have "CHR ''['' \<notin> set (take n f)"
    using Suc.prems by (simp add: take_Suc_conv_app_nth)
  with Suc have "find_bracket f n (k + 1) = (0, k + 1 + n)" by simp
  with ne show ?case by (subst find_bracket.simps) simp
qed

lemma find_bracket_found:
  "CHR ''['' \<notin> set b \<Longrightarrow>
   find_bracket (p @ CHR ''['' # b @ r) (length p + 1 + length b) k = (length p, k + length b)"
proof (induction b arbitrary: k r rule: rev_induct)
  case Nil
  show ?case by (subst find_bracket.simps) (simp add: nth_append)
next
  case (snoc x b)
  have ne: "(p @ CHR ''['' # (b @ [x]) @ r) ! (length p + 1 + length b) \<noteq> CHR ''[''"
    using snoc.prems by (auto simp: nth_append)
  have "find_bracket (p @ CHR ''['' # b @ ([x] @ r)) (length p + 1 + length b) (k + 1)
        = (length p, k + 1 + length b)"
    using snoc.prems snoc.IH [of "[x] @ r" "k + 1"] by simp
  with ne show ?case by (subst find_bracket.simps) simp
qed

lemma strip_slashes_eq:
  "n \<le> length f \<Longrightarrow>
   strip_slashes f n k =
     (length (strip_trailing (take n f)), k + (n - length (strip_trailing (take n f))))"
proof (induction n arbitrary: k)
  case 0
  then show ?case by (simp add: strip_slashes.simps strip_trailing_def)
next
  case (Suc n)
  have tk: "take (Suc n) f = take n f @ [f ! n]"
    using Suc.prems by (simp add: take_Suc_conv_app_nth)
  show ?case
  proof (cases "f ! n = CHR ''/''")
    case True
    have st: "strip_trailing (take (Suc n) f) = strip_trailing (take n f)"
      by (simp add: tk strip_trailing_def True)
    have le: "length (strip_trailing (take n f)) \<le> n"
      using Suc.prems
      by (simp add: strip_trailing_def) (metis length_dropWhile_le length_rev length_take min.absorb2 Suc_leD)
    have "strip_slashes f n (k + 1) =
            (length (strip_trailing (take n f)), k + 1 + (n - length (strip_trailing (take n f))))"
      using Suc by simp
    with True st le show ?thesis by (subst strip_slashes.simps) simp
  next
    case False
    have st: "strip_trailing (take (Suc n) f) = take (Suc n) f"
      by (simp add: tk strip_trailing_def False)
    from False Suc.prems show ?thesis by (subst strip_slashes.simps) (simp add: st)
  qed
qed

lemma strip_trailing_prefix: "\<exists>s. p = strip_trailing p @ s \<and> set s \<subseteq> {CHR ''/''}"
proof -
  have "rev p = takeWhile (\<lambda>c. c = CHR ''/'') (rev p) @ dropWhile (\<lambda>c. c = CHR ''/'') (rev p)"
    by simp
  then have "p = rev (dropWhile (\<lambda>c. c = CHR ''/'') (rev p)) @ rev (takeWhile (\<lambda>c. c = CHR ''/'') (rev p))"
    by (metis rev_append rev_rev_ident)
  moreover have "set (rev (takeWhile (\<lambda>c. c = CHR ''/'') (rev p))) \<subseteq> {CHR ''/''}"
    using set_takeWhileD by fastforce
  ultimately show ?thesis unfolding strip_trailing_def by blast
qed

lemma parse_locator_brackets:
  assumes "CHR ''['' \<notin> set b"
  shows "parse_locator (p @ ''['' @ b @ '']'') =
           (if strip_trailing p = [] then None else Some (strip_trailing p, b))"
proof -
  let ?f = "p @ CHR ''['' # b @ [CHR '']'']"
  have len: "length ?f = length p + 1 + length b + 1" by simp
  have last: "?f ! (length ?f - 1) = CHR '']''"
    by (simp add: nth_append)
  have fb: "find_bracket ?f (length ?f - 1) 0 = (length p, length b)"
    using find_bracket_found [OF assms, of p "[CHR '']'']" 0] by simp
  obtain s where s: "p = strip_trailing p @ s" by (metis strip_trailing_prefix)
  have ss: "strip_slashes ?f (length p) 1 =
              (length (strip_trailing p), 1 + (length p - length (strip_trailing p)))"
    using strip_slashes_eq [of "length p" ?f 1] by simp
  have lp: "length (strip_trailing p) \<le> length p"
    by (metis s length_append le_add1)
  have tk: "take (length (strip_trailing p)) ?f = strip_trailing p"
    by (metis s append.assoc append_eq_conv_conj)
  have dr: "drop (length (strip_trailing p) + (1 + (length p - length (strip_trailing p)))) ?f
            = b @ [CHR '']'']"
    using lp by simp
  show ?thesis
    using last fb ss tk dr
    by (simp add: parse_locator_def scan_locator_def loc_of_def branch_of_def Let_def)
qed

lemma parse_locator_no_close:
  "f = [] \<or> last f \<noteq> CHR '']'' \<Longrightarrow> parse_locator f = None"
  by (cases "f = []") (simp_all add: parse_locator_def scan_locator_def Let_def last_conv_nth)

lemma parse_locator_no_open:
  assumes "CHR ''['' \<notin> set f"
  shows "parse_locator f = None"
proof -
  have "CHR ''['' \<notin> set (take (length f - 1) f)"
    using assms by (meson in_set_takeD)
  then have "find_bracket f (length f - 1) 0 = (0, 0 + (length f - 1))"
    by (intro find_bracket_none) simp_all
  moreover have "strip_slashes f 0 1 = (0, 1)"
    by (simp add: strip_slashes.simps)
  ultimately show ?thesis
    by (simp add: parse_locator_def scan_locator_def Let_def)
qed


lemma parse_locator_Some_shape:
  assumes "parse_locator f = Some (p, b)"
  shows "\<exists>q. f = q @ ''['' @ b @ '']'' \<and> CHR ''['' \<notin> set b \<and> p = strip_trailing q \<and> p \<noteq> []"
proof -
  have ne: "f \<noteq> []" and la: "last f = CHR '']''"
    using assms parse_locator_no_close [of f] by auto
  have op: "CHR ''['' \<in> set f"
    using assms parse_locator_no_open [of f] by auto
  obtain g where g: "f = g @ [CHR '']'']"
    using ne la by (metis append_butlast_last_id)
  with op have "CHR ''['' \<in> set g" by simp
  then obtain q b' where qb: "g = q @ CHR ''['' # b'" "CHR ''['' \<notin> set b'"
    by (meson split_list_last)
  have f: "f = q @ ''['' @ b' @ '']''" using g qb by simp
  have "parse_locator f = (if strip_trailing q = [] then None else Some (strip_trailing q, b'))"
    unfolding f using qb(2) by (rule parse_locator_brackets)
  with assms have "strip_trailing q \<noteq> []" "p = strip_trailing q" "b = b'"
    by (auto split: if_splits)
  with f qb(2) show ?thesis by blast
qed

lemma has_remote_scheme_iff:
  "has_remote_scheme s \<longleftrightarrow> (\<exists>ls rest. s = ls @ ''://'' @ rest \<and> (\<forall>c\<in>set ls. is_lower c))"
proof
  assume h: "has_remote_scheme s"
  let ?ls = "takeWhile is_lower s"
  from h obtain p where d: "dropWhile is_lower s = CHR '':'' # p" and p: "take 2 p = ''//''"
    by (auto simp: has_remote_scheme_def split: list.splits)
  from p obtain rest where "p = ''//'' @ rest"
    by (metis append_take_drop_id)
  with d have "s = ?ls @ ''://'' @ rest"
    by (metis takeWhile_dropWhile_id append_Cons append_Nil)
  moreover have "\<forall>c\<in>set ?ls. is_lower c"
    by (meson set_takeWhileD)
  ultimately show "\<exists>ls rest. s = ls @ ''://'' @ rest \<and> (\<forall>c\<in>set ls. is_lower c)" by blast
next
  assume "\<exists>ls rest. s = ls @ ''://'' @ rest \<and> (\<forall>c\<in>set ls. is_lower c)"
  then obtain ls rest where s: "s = ls @ ''://'' @ rest" and l: "\<forall>c\<in>set ls. is_lower c" by blast
  have "\<not> is_lower CHR '':''" by (simp add: is_lower_def)
  with l have "dropWhile is_lower s = ''://'' @ rest"
    unfolding s by (simp add: dropWhile_append)
  then show "has_remote_scheme s" by (simp add: has_remote_scheme_def)
qed

subsection \<open>Cleanliness check\<close>

lemma check_clean_mask: "NOT GIT_STATUS_CURRENT OR GIT_STATUS_IGNORED = (- 1 :: 32 word)"
  by (simp add: GIT_STATUS_CURRENT_def)

lemma check_clean_eq:
  "check_clean path st w =
     (if st = 0 then (0, w)
      else (1, report_error (''WARNING: Git cache directory modified (path '' @ path @ '')'') w))"
  by (simp add: check_clean_def check_clean_mask)

lemma status_foreach_clean:
  "fst (status_foreach es check_clean w) = 0 \<Longrightarrow> status_foreach es check_clean w = (0, w)"
  by (induction es arbitrary: w) (auto simp: check_clean_eq split: if_splits)

lemma status_foreach_zero_iff:
  "fst (status_foreach es check_clean w) = 0 \<longleftrightarrow> (\<forall>(path, st) \<in> set es. st = 0)"
  by (induction es arbitrary: w) (auto simp: check_clean_eq split: if_splits)

lemma status_foreach_frame:
  "prefs (snd (status_foreach es check_clean w)) = prefs w \<and>
   net (snd (status_foreach es check_clean w)) = net w \<and>
   fs (snd (status_foreach es check_clean w)) = fs w \<and>
   repos (snd (status_foreach es check_clean w)) = repos w"
  by (induction es arbitrary: w) (auto simp: check_clean_eq report_error_def)

lemma spec_dirty_foreach:
  "spec_dirty es \<Longrightarrow> fst (status_foreach es check_clean w) \<noteq> 0"
proof -
  assume "spec_dirty es"
  then obtain path st where in_es: "(path, st) \<in> set es"
    and fl: "st AND NOT (GIT_STATUS_CURRENT OR GIT_STATUS_IGNORED) \<noteq> 0"
    unfolding spec_dirty_def list_ex_iff by blast
  from fl have "st \<noteq> 0" by auto
  with in_es show ?thesis by (auto simp: status_foreach_zero_iff)
qed

text \<open>
  C3. The cleanliness check should call the tree dirty exactly when some entry has a flag
  outside current and ignored, so an entry that is only ignored should leave it clean.
  In the code the mask \<open>~GIT_STATUS_CURRENT | GIT_STATUS_IGNORED\<close> has every bit set:
  \<open>check_clean\<close> returns 1 on an entry whose only flag is ignored, and
  \<open>git_status_foreach\<close> over a tree with that single entry returns 1, although the tree
  is not dirty in the words of the specification.
\<close>

theorem check_clean_ignored_is_dirty:
  "fst (check_clean ''notes.txt'' GIT_STATUS_IGNORED w) = 1 \<and>
   fst (git_status_foreach (repo\<lparr>status := [(''notes.txt'', GIT_STATUS_IGNORED)]\<rparr>) check_clean w) = 1 \<and>
   \<not> spec_dirty [(''notes.txt'', GIT_STATUS_IGNORED)]"
  by (simp add: check_clean_eq git_status_foreach_def spec_dirty_def GIT_STATUS_IGNORED_def
        GIT_STATUS_CURRENT_def)

subsection \<open>The decision of the sync engine\<close>

text \<open>
  C2. When the two references differ and the tree is dirty (in the words of the
  specification, or because the cleanliness check of the code does not return 0), the
  attempt returns with the report of a dirty copy, the repository is unchanged, no
  network operation is added, and the outcome is the same whatever the merge base and the
  other answers of the backend would be: the check comes before all of them.
\<close>

theorem dirty_tree_aborts:
  assumes "git_reference_cmp local remote \<noteq> 0"
    and "spec_dirty (status repo) \<or> fst (git_status_foreach repo check_clean w) \<noteq> 0"
  shows "try_to_update e repo origin local remote rt w =
           (report_error_returns e, repo,
            report_error ''local cached copy is dirty, skipping update''
              (snd (git_status_foreach repo check_clean w))) \<and>
         net (snd (snd (try_to_update e repo origin local remote rt w))) = net w \<and>
         snd (try_to_update e' repo origin' local remote rt' w) =
           snd (try_to_update e repo origin local remote rt w)"
proof -
  have d: "fst (git_status_foreach repo check_clean w) \<noteq> 0"
    using assms(2) spec_dirty_foreach [of "status repo" w] by (auto simp: git_status_foreach_def)
  have eq: "\<And>e origin rt. try_to_update e repo origin local remote rt w =
           (report_error_returns e, repo,
            report_error ''local cached copy is dirty, skipping update''
              (snd (git_status_foreach repo check_clean w)))"
  proof -
    fix e origin rt
    obtain rc w1 where r: "git_status_foreach repo check_clean w = (rc, w1)"
      by (cases "git_status_foreach repo check_clean w")
    with d have "rc \<noteq> 0" by simp
    with assms(1) r show "try_to_update e repo origin local remote rt w =
           (report_error_returns e, repo,
            report_error ''local cached copy is dirty, skipping update''
              (snd (git_status_foreach repo check_clean w)))"
      by (simp add: try_to_update_def)
  qed
  have "net (snd (git_status_foreach repo check_clean w)) = net w"
    by (simp add: git_status_foreach_def status_foreach_frame)
  then show ?thesis by (simp add: eq report_error_def)
qed


theorem dirty_tree_aborts_witness:
  "git_reference_cmp local0 remote0 \<noteq> 0 \<and>
   spec_dirty (status (repo0\<lparr>status := [(''dive.xml'', 0x100)]\<rparr>)) \<and>
   try_to_update env0 (repo0\<lparr>status := [(''dive.xml'', 0x100)]\<rparr>) ''origin'' local0 remote0 HTTPS world0 =
     (-1, repo0\<lparr>status := [(''dive.xml'', 0x100)]\<rparr>,
      world0\<lparr>reports := [''WARNING: Git cache directory modified (path dive.xml)'',
                          ''local cached copy is dirty, skipping update'']\<rparr>)"
proof -
  have h1: "git_reference_cmp local0 remote0 \<noteq> 0"
    by (simp add: git_reference_cmp_def local0_def remote0_def)
  have h2: "spec_dirty (status (repo0\<lparr>status := [(''dive.xml'', 0x100)]\<rparr>))"
    by (simp add: spec_dirty_def GIT_STATUS_CURRENT_def GIT_STATUS_IGNORED_def)
  have h3: "git_status_foreach (repo0\<lparr>status := [(''dive.xml'', 0x100)]\<rparr>) check_clean world0 =
              (1, world0\<lparr>reports := [''WARNING: Git cache directory modified (path dive.xml)'']\<rparr>)"
    by (simp add: git_status_foreach_def check_clean_eq report_error_def world0_def)
  from dirty_tree_aborts [where e = env0 and origin = "''origin''" and rt = HTTPS and w = world0,
      OF h1 disjI1 [OF h2]]
  have "try_to_update env0 (repo0\<lparr>status := [(''dive.xml'', 0x100)]\<rparr>) ''origin'' local0 remote0 HTTPS world0 =
          (report_error_returns env0, repo0\<lparr>status := [(''dive.xml'', 0x100)]\<rparr>,
           report_error ''local cached copy is dirty, skipping update''
             (snd (git_status_foreach (repo0\<lparr>status := [(''dive.xml'', 0x100)]\<rparr>) check_clean world0)))"
    by blast
  moreover have "report_error_returns env0 = - 1" by (simp add: env0_def)
  ultimately show ?thesis using h1 h2 by (simp add: h3 report_error_def)
qed


lemma git_status_foreach_clean:
  "fst (git_status_foreach repo check_clean w) = 0 \<Longrightarrow> git_status_foreach repo check_clean w = (0, w)"
  by (simp add: git_status_foreach_def status_foreach_clean)

lemma try_to_update_clean:
  assumes "ref_target local = Direct l" and "ref_target remote = Direct r" and "l \<noteq> r"
    and "fst (git_status_foreach repo check_clean w) = 0"
    and "merge_base e l r = Some base"
  shows "try_to_update e repo origin local remote rt w =
      (if base = l then reset_to_remote e repo local r w
       else if base = r then update_remote e repo origin local remote rt w
       else if is_bare repo then
         (report_error_returns e, repo, report_error ''Local and remote have diverged, merge of bare branch needed'' w)
       else if git_branch_is_head repo local \<noteq> 1 then
         (report_error_returns e, repo,
          report_error ''Local and remote do not match, local branch not HEAD - cannot update'' w)
       else (report_error_returns e, repo, report_error ''Local and remote have diverged, need to merge'' w))"
proof -
  have c: "git_reference_cmp local remote \<noteq> 0"
    using assms(1-3) by (simp add: git_reference_cmp_def)
  have t: "git_reference_target local = Some l" "git_reference_target remote = Some r"
    using assms(1,2) by (simp_all add: git_reference_target_def)
  show ?thesis
    unfolding try_to_update_def
    using c by (simp add: git_status_foreach_clean [OF assms(4)] t assms(5))
qed

lemma reset_to_remote_moves_ref:
  "(if is_bare repo \<or> head_ref repo \<noteq> Some (ref_name local) then \<not> set_target_fails e
    else \<not> object_lookup_fails e \<and> \<not> reset_fails e) \<Longrightarrow>
   fst (reset_to_remote e repo local r w) = 0 \<and>
   map_of (refs (fst (snd (reset_to_remote e repo local r w)))) (ref_name local) = Some (Direct r)"
  by (auto simp: reset_to_remote_def git_branch_is_head_def git_reference_set_target_def
        git_reset_hard_def update_conv' split: if_splits)

text \<open>
  C1, as the code has it. On a tree that the cleanliness check passes, with two different
  commits and a merge base: when the merge base is the local commit the code fast-forwards
  (it moves the reference if the repository is bare or the branch is not checked out,
  otherwise it looks the commit up and resets hard), and the local reference ends at the
  remote commit whenever that backend update succeeds; when the update fails an error is
  reported and the result of \<open>report_error\<close> is returned; no network operation is
  made. When the merge base is the remote commit the code pushes: exactly one push of the
  local reference to the origin is added to the network log, with the credentials of the
  remote type, and its success or failure is reported (on failure the repository is
  unchanged). Otherwise it reports the divergence of a bare repository, of a branch that
  is not checked out, or the need to merge, in this order, and changes neither the
  repository nor the network log.
\<close>

theorem sync_decision:
  assumes "ref_target local = Direct l" and "ref_target remote = Direct r" and "l \<noteq> r"
    and "fst (git_status_foreach repo check_clean w) = 0"
    and "merge_base e l r = Some base"
  shows "try_to_update e repo origin local remote rt w =
      (if base = l then
         (if is_bare repo \<or> head_ref repo \<noteq> Some (ref_name local) then
            (if set_target_fails e
             then (report_error_returns e, repo, report_error ''Could not update local ref to newer remote ref'' w)
             else (0, repo\<lparr>refs := AList.update (ref_name local) (Direct r) (refs repo)\<rparr>,
                   report_error ''Updated local branch from remote'' w))
          else if object_lookup_fails e
            then (report_error_returns e, repo, report_error ''Could not look up remote commit'' w)
          else if reset_fails e
            then (report_error_returns e, repo, report_error ''Local head checkout failed after update'' w)
          else (0, git_reset_hard repo r, report_error ''Updated local information from remote'' w))
       else if base = r then
         (case push_result e repo of
            None \<Rightarrow>
              (report_error_returns e, repo,
               report_error
                 (''Unable to update remote with current local cache state ('' @ giterr_last e @ '')'')
                 (w\<lparr>net := net w @
                     [Net_push origin (ref_name local) (supplied e w origin (callback_for e rt))]\<rparr>))
          | Some repo' \<Rightarrow>
              (0, repo',
               report_error ''Local cache more recent than remote''
                 (w\<lparr>net := net w @
                     [Net_push origin (ref_name local) (supplied e w origin (callback_for e rt))]\<rparr>)))
       else if is_bare repo then
         (report_error_returns e, repo, report_error ''Local and remote have diverged, merge of bare branch needed'' w)
       else if head_ref repo \<noteq> Some (ref_name local) then
         (report_error_returns e, repo,
          report_error ''Local and remote do not match, local branch not HEAD - cannot update'' w)
       else (report_error_returns e, repo, report_error ''Local and remote have diverged, need to merge'' w)) \<and>
     (base = l \<and>
      (if is_bare repo \<or> head_ref repo \<noteq> Some (ref_name local) then \<not> set_target_fails e
       else \<not> object_lookup_fails e \<and> \<not> reset_fails e) \<longrightarrow>
        fst (try_to_update e repo origin local remote rt w) = 0 \<and>
        map_of (refs (fst (snd (try_to_update e repo origin local remote rt w)))) (ref_name local)
          = Some (Direct r)) \<and>
     (base = l \<longrightarrow>
        net (snd (snd (try_to_update e repo origin local remote rt w))) = net w) \<and>
     (base = r \<longrightarrow>
        net (snd (snd (try_to_update e repo origin local remote rt w))) =
          net w @ [Net_push origin (ref_name local) (supplied e w origin (callback_for e rt))] \<and>
        (push_result e repo = None \<longrightarrow>
           fst (snd (try_to_update e repo origin local remote rt w)) = repo)) \<and>
     (base \<noteq> l \<and> base \<noteq> r \<longrightarrow>
        fst (snd (try_to_update e repo origin local remote rt w)) = repo \<and>
        net (snd (snd (try_to_update e repo origin local remote rt w))) = net w \<and>
        prefs (snd (snd (try_to_update e repo origin local remote rt w))) = prefs w)"
proof -
  note eq = try_to_update_clean [OF assms, of origin rt]
  have a: "try_to_update e repo origin local remote rt w =
      (if base = l then
         (if is_bare repo \<or> head_ref repo \<noteq> Some (ref_name local) then
            (if set_target_fails e
             then (report_error_returns e, repo, report_error ''Could not update local ref to newer remote ref'' w)
             else (0, repo\<lparr>refs := AList.update (ref_name local) (Direct r) (refs repo)\<rparr>,
                   report_error ''Updated local branch from remote'' w))
          else if object_lookup_fails e
            then (report_error_returns e, repo, report_error ''Could not look up remote commit'' w)
          else if reset_fails e
            then (report_error_returns e, repo, report_error ''Local head checkout failed after update'' w)
          else (0, git_reset_hard repo r, report_error ''Updated local information from remote'' w))
       else if base = r then
         (case push_result e repo of
            None \<Rightarrow>
              (report_error_returns e, repo,
               report_error
                 (''Unable to update remote with current local cache state ('' @ giterr_last e @ '')'')
                 (w\<lparr>net := net w @
                     [Net_push origin (ref_name local) (supplied e w origin (callback_for e rt))]\<rparr>))
          | Some repo' \<Rightarrow>
              (0, repo',
               report_error ''Local cache more recent than remote''
                 (w\<lparr>net := net w @
                     [Net_push origin (ref_name local) (supplied e w origin (callback_for e rt))]\<rparr>)))
       else if is_bare repo then
         (report_error_returns e, repo, report_error ''Local and remote have diverged, merge of bare branch needed'' w)
       else if head_ref repo \<noteq> Some (ref_name local) then
         (report_error_returns e, repo,
          report_error ''Local and remote do not match, local branch not HEAD - cannot update'' w)
       else (report_error_returns e, repo, report_error ''Local and remote have diverged, need to merge'' w))"
    unfolding eq
    by (simp add: reset_to_remote_def update_remote_def Let_def git_branch_is_head_def
          git_reference_set_target_def)
  have b: "base = l \<and>
      (if is_bare repo \<or> head_ref repo \<noteq> Some (ref_name local) then \<not> set_target_fails e
       else \<not> object_lookup_fails e \<and> \<not> reset_fails e) \<longrightarrow>
        fst (try_to_update e repo origin local remote rt w) = 0 \<and>
        map_of (refs (fst (snd (try_to_update e repo origin local remote rt w)))) (ref_name local)
          = Some (Direct r)"
    unfolding eq using reset_to_remote_moves_ref [of repo local e r w] by simp
  have f: "base = l \<longrightarrow>
        net (snd (snd (try_to_update e repo origin local remote rt w))) = net w"
    unfolding eq by (simp add: reset_to_remote_def report_error_def)
  have p: "base = r \<longrightarrow>
        net (snd (snd (try_to_update e repo origin local remote rt w))) =
          net w @ [Net_push origin (ref_name local) (supplied e w origin (callback_for e rt))] \<and>
        (push_result e repo = None \<longrightarrow>
           fst (snd (try_to_update e repo origin local remote rt w)) = repo)"
    unfolding eq using assms(3)
    by (auto simp: update_remote_def Let_def report_error_def split: option.split)
  have c: "base \<noteq> l \<and> base \<noteq> r \<longrightarrow>
        fst (snd (try_to_update e repo origin local remote rt w)) = repo \<and>
        net (snd (snd (try_to_update e repo origin local remote rt w))) = net w \<and>
        prefs (snd (snd (try_to_update e repo origin local remote rt w))) = prefs w"
    unfolding eq by (simp add: report_error_def)
  from a b f p c show ?thesis by blast
qed

theorem sync_decision_witness:
  "ref_target local0 = Direct 1 \<and> ref_target remote0 = Direct 2 \<and> (1::nat) \<noteq> 2 \<and>
   fst (git_status_foreach repo0 check_clean world0) = 0 \<and>
   merge_base env0 1 2 = Some 1 \<and>
   try_to_update env0 repo0 ''origin'' local0 remote0 HTTPS world0 =
     (0, git_reset_hard repo0 2, report_error ''Updated local information from remote'' world0) \<and>
   map_of (refs (fst (snd (try_to_update env0 repo0 ''origin'' local0 remote0 HTTPS world0))))
     ''refs/heads/master'' = Some (Direct 2) \<and>
   ref_target (local0\<lparr>ref_target := Direct 2\<rparr>) = Direct 2 \<and>
   ref_target (remote0\<lparr>ref_target := Direct 1\<rparr>) = Direct 1 \<and>
   merge_base env0 2 1 = Some 1 \<and>
   try_to_update env0 repo0 ''origin'' (local0\<lparr>ref_target := Direct 2\<rparr>)
       (remote0\<lparr>ref_target := Direct 1\<rparr>) HTTPS world0 =
     (0, repo0,
      world0\<lparr>reports := [''Local cache more recent than remote''],
             net := [Net_push ''origin'' ''refs/heads/master''
                       (Some (Cred_userpass_plaintext None ''secret''))]\<rparr>)"
proof -
  have h1: "ref_target local0 = Direct 1" by (simp add: local0_def)
  have h2: "ref_target remote0 = Direct 2" by (simp add: remote0_def)
  have h3: "(1::nat) \<noteq> 2" by simp
  have h4: "fst (git_status_foreach repo0 check_clean world0) = 0"
    by (simp add: git_status_foreach_def repo0_def)
  have h5: "merge_base env0 1 2 = Some 1" by (simp add: env0_def)
  have n: "ref_name local0 = ''refs/heads/master''" by (simp add: local0_def)
  have s: "\<not> is_bare repo0" "head_ref repo0 = Some ''refs/heads/master''"
      "\<not> object_lookup_fails env0" "\<not> reset_fails env0"
    by (simp_all add: repo0_def env0_def)
  have ff: "try_to_update env0 repo0 ''origin'' local0 remote0 HTTPS world0 =
              (0, git_reset_hard repo0 2, report_error ''Updated local information from remote'' world0) \<and>
            map_of (refs (fst (snd (try_to_update env0 repo0 ''origin'' local0 remote0 HTTPS world0))))
              ''refs/heads/master'' = Some (Direct 2)"
    using sync_decision [OF h1 h2 h3 h4 h5, of "''origin''" HTTPS] by (auto simp: n s)
  have g1: "ref_target (local0\<lparr>ref_target := Direct 2\<rparr>) = Direct 2" by simp
  have g2: "ref_target (remote0\<lparr>ref_target := Direct 1\<rparr>) = Direct 1" by simp
  have g3: "(2::nat) \<noteq> 1" by simp
  have g5: "merge_base env0 2 1 = Some 1" by (simp add: env0_def)
  have pr: "push_result env0 repo0 = Some repo0" by (simp add: env0_def)
  have cr: "supplied env0 world0 ''origin'' (callback_for env0 HTTPS) =
              Some (Cred_userpass_plaintext None ''secret'')"
    by (simp add: supplied_def callback_for_def credential_https_cb_def env0_def world0_def)
  have push: "try_to_update env0 repo0 ''origin'' (local0\<lparr>ref_target := Direct 2\<rparr>)
                 (remote0\<lparr>ref_target := Direct 1\<rparr>) HTTPS world0 =
               (0, repo0,
                world0\<lparr>reports := [''Local cache more recent than remote''],
                       net := [Net_push ''origin'' ''refs/heads/master''
                                 (Some (Cred_userpass_plaintext None ''secret''))]\<rparr>)"
    using sync_decision [OF g1 g2 g3 h4 g5, of "''origin''" HTTPS, THEN conjunct1]
    by (simp add: pr cr n) (simp add: report_error_def world0_def)
  from h1 h2 h3 h4 h5 ff g1 g2 g5 push show ?thesis by blast
qed

text \<open>
  C1 as worded promises that the local reference ends at the remote commit. When the
  hard reset of the checked-out branch fails, the code reports the error and the local
  reference stays at commit 1, with the remote at commit 2.
\<close>

theorem sync_decision_counterexample:
  "ref_target local0 = Direct 1 \<and> ref_target remote0 = Direct 2 \<and>
   fst (git_status_foreach repo0 check_clean world0) = 0 \<and>
   merge_base (env0\<lparr>reset_fails := True\<rparr>) 1 2 = Some 1 \<and>
   try_to_update (env0\<lparr>reset_fails := True\<rparr>) repo0 ''origin'' local0 remote0 HTTPS world0 =
     (- 1, repo0, world0\<lparr>reports := [''Local head checkout failed after update'']\<rparr>) \<and>
   map_of (refs (fst (snd (try_to_update (env0\<lparr>reset_fails := True\<rparr>) repo0 ''origin''
          local0 remote0 HTTPS world0)))) ''refs/heads/master'' = Some (Direct 1)"
proof -
  have t: "try_to_update (env0\<lparr>reset_fails := True\<rparr>) repo0 ''origin'' local0 remote0 HTTPS world0 =
     (- 1, repo0, world0\<lparr>reports := [''Local head checkout failed after update'']\<rparr>)"
    by (simp add: try_to_update_def git_reference_cmp_def git_status_foreach_def
          git_reference_target_def reset_to_remote_def git_branch_is_head_def report_error_def
          local0_def remote0_def repo0_def env0_def world0_def)
  show ?thesis
    unfolding t
    by (simp add: git_status_foreach_def local0_def remote0_def repo0_def env0_def)
qed


subsection \<open>Parsing a locator\<close>

lemma parse_example_plain: "parse_locator ''/a/b/c[mybranch]'' = Some (''/a/b/c'', ''mybranch'')"
  by code_simp

lemma parse_example_slashes: "parse_locator ''/a/b/c///[mybranch]'' = Some (''/a/b/c'', ''mybranch'')"
  by code_simp

lemma parse_example_no_suffix: "parse_locator ''/a/b/c'' = None"
  by code_simp

lemma parse_example_empty_path: "parse_locator ''///[mybranch]'' = None"
  by code_simp

text \<open>
  C6. A name \<open>p[b]\<close>, where \<open>b\<close> has no opening bracket, parses to the path \<open>p\<close>
  without its trailing separators and the branch \<open>b\<close>, and fails when nothing is left
  of the path. A name that does not end in a closing bracket, or has no opening bracket,
  fails. The examples of the specification are evaluated on the code.
\<close>

theorem parse_locator_spec:
  "(CHR ''['' \<notin> set b \<longrightarrow>
      parse_locator (p @ ''['' @ b @ '']'') =
        (if strip_trailing p = [] then None else Some (strip_trailing p, b))) \<and>
   (f = [] \<or> last f \<noteq> CHR '']'' \<longrightarrow> parse_locator f = None) \<and>
   (CHR ''['' \<notin> set f \<longrightarrow> parse_locator f = None) \<and>
   parse_locator ''/a/b/c[mybranch]'' = Some (''/a/b/c'', ''mybranch'') \<and>
   parse_locator ''/a/b/c///[mybranch]'' = Some (''/a/b/c'', ''mybranch'') \<and>
   parse_locator ''/a/b/c'' = None \<and>
   parse_locator ''///[mybranch]'' = None"
  using parse_locator_brackets [of b p] parse_locator_no_close [of f] parse_locator_no_open [of f]
    parse_example_plain parse_example_slashes parse_example_no_suffix parse_example_empty_path
  by blast

theorem parse_locator_spec_witness:
  "CHR ''['' \<notin> set ''dives'' \<and>
   parse_locator (''/home/diver/log//'' @ ''['' @ ''dives'' @ '']'') = Some (''/home/diver/log'', ''dives'') \<and>
   last ''/home/diver/log'' \<noteq> CHR '']'' \<and>
   parse_locator ''/home/diver/log'' = None \<and>
   CHR ''['' \<notin> set ''log]'' \<and>
   parse_locator ''log]'' = None"
  using parse_locator_spec [of "''dives''" "''/home/diver/log//''" "''/home/diver/log''"]
    parse_locator_spec [of "''dives''" "''/home/diver/log//''" "''log]''"]
  by (simp add: strip_trailing_def)

text \<open>
  C8 as worded: the branch of an accepted name is never empty. The name \<open>a[]\<close> is
  accepted with the path \<open>a\<close> and the empty branch, and when \<open>a\<close> is a directory with
  a repository the entry point returns that repository and writes the empty branch.
\<close>

theorem empty_branch_counterexample:
  "parse_locator ''a[]'' = Some (''a'', []) \<and>
   fst (is_git_repository env0 ''a[]'' (world0\<lparr>fs := [(''a'', S_IFDIR)], repos := [(''a'', repo0)]\<rparr>))
     = Repo ''a'' \<and>
   fst (snd (is_git_repository env0 ''a[]'' (world0\<lparr>fs := [(''a'', S_IFDIR)], repos := [(''a'', repo0)]\<rparr>)))
     = Some []"
proof -
  have p: "parse_locator ''a[]'' = Some (''a'', [])" by code_simp
  have s: "scan_locator ''a[]'' = Some (1, 0, 1)" by code_simp
  have r: "\<not> has_remote_scheme ''a''" by (simp add: has_remote_scheme_def is_lower_def)
  show ?thesis
    by (simp add: p is_git_repository_def s format_string_def env0_def loc_of_def branch_of_def
          is_remote_git_repository_def r stat_def git_repository_open_def)
qed

text \<open>
  C8, as the code has it: the branch of an accepted name is the text between the last
  opening bracket and the final closing bracket. It has no opening bracket in it and may
  be empty; it is empty exactly when the name ends in \<open>[]\<close>. The path is what precedes
  that opening bracket without its trailing separators, and is not empty.
\<close>

theorem parse_locator_branch:
  assumes "parse_locator f = Some (p, b)"
  shows "(\<exists>q. f = q @ ''['' @ b @ '']'' \<and> p = strip_trailing q) \<and> CHR ''['' \<notin> set b \<and> p \<noteq> [] \<and>
         (b = [] \<longleftrightarrow> drop (length f - 2) f = ''[]'')"
proof -
  from parse_locator_Some_shape [OF assms]
  obtain q where q: "f = q @ ''['' @ b @ '']''" "CHR ''['' \<notin> set b" "p = strip_trailing q" "p \<noteq> []"
    by blast
  have "b = [] \<longleftrightarrow> drop (length f - 2) f = ''[]''"
  proof
    assume "b = []"
    with q(1) show "drop (length f - 2) f = ''[]''" by simp
  next
    assume d: "drop (length f - 2) f = ''[]''"
    show "b = []"
    proof (rule ccontr)
      assume "b \<noteq> []"
      then obtain b' x where b: "b = b' @ [x]" by (metis rev_exhaust)
      with q(2) have x: "x \<noteq> CHR ''[''" by auto
      have "f = (q @ ''['' @ b') @ [x, CHR '']'']" using q(1) b by simp
      then have "drop (length f - 2) f = [x, CHR '']'']" by simp
      with d x show False by simp
    qed
  qed
  with q show ?thesis by blast
qed

theorem parse_locator_branch_witness:
  "parse_locator ''a[]'' = Some (''a'', []) \<and>
   (\<exists>q. ''a[]'' = q @ ''['' @ [] @ '']'' \<and> ''a'' = strip_trailing q) \<and>
   drop (length ''a[]'' - 2) ''a[]'' = ''[]''"
proof -
  have p: "parse_locator ''a[]'' = Some (''a'', [])" by code_simp
  from parse_locator_branch [OF p] show ?thesis using p by simp
qed


subsection \<open>Scheme detection and the user name of an https URL\<close>

lemma no_scheme_is_local:
  "\<not> has_remote_scheme s \<Longrightarrow> is_remote_git_repository e s branch w = (None, s, w)"
  by (simp add: is_remote_git_repository_def)

text \<open>
  C4 as worded: a path that starts with \<open>://\<close> is local. The code accepts it as a
  remote: the scheme test passes and the clone of \<open>://host/repo\<close> is attempted.
\<close>

theorem scheme_without_letters_counterexample:
  "has_remote_scheme ''://host/repo'' \<and>
   reports (snd (snd (is_remote_git_repository env0 ''://host/repo'' ''b'' world0))) =
     [''git clone of ://host/repo failed (libgit2 error)'']"
proof -
  have h: "has_remote_scheme ''://host/repo''"
    by (simp add: has_remote_scheme_def is_lower_def)
  show ?thesis
    by (simp add: h is_remote_git_repository_def strncmp_eq_def strip_username_def get_local_dir_def
          format_string_def get_remote_repo_def stat_def create_local_repo_def report_error_def
          env0_def world0_def Let_def)
qed

text \<open>
  C4, as the code has it (its comment names the shape \<open>[a-z]*://\<close>): a path is taken as
  a remote exactly when it is zero or more lowercase letters followed by \<open>://\<close>, and every
  other path is left to the caller as a local path, with nothing changed.
\<close>

theorem remote_scheme_iff:
  "(has_remote_scheme s \<longleftrightarrow> (\<exists>ls rest. s = ls @ ''://'' @ rest \<and> (\<forall>c\<in>set ls. is_lower c))) \<and>
   (\<not> has_remote_scheme s \<longrightarrow> is_remote_git_repository e s branch w = (None, s, w))"
  using has_remote_scheme_iff [of s] no_scheme_is_local [of s e branch w] by blast

theorem remote_scheme_iff_witness:
  "has_remote_scheme ''ssh://host/repo'' \<and>
   (\<exists>ls rest. ''ssh://host/repo'' = ls @ ''://'' @ rest \<and> list_all is_lower ls) \<and>
   \<not> has_remote_scheme ''Ssh://host/repo'' \<and>
   \<not> has_remote_scheme ''s3://host/repo'' \<and>
   is_remote_git_repository env0 ''s3://host/repo'' ''b'' world0 = (None, ''s3://host/repo'', world0)"
proof -
  have a: "has_remote_scheme ''ssh://host/repo''"
    by (simp add: has_remote_scheme_def is_lower_def)
  have b: "\<not> has_remote_scheme ''Ssh://host/repo''"
    by (simp add: has_remote_scheme_def is_lower_def)
  have c: "\<not> has_remote_scheme ''s3://host/repo''"
    by (simp add: has_remote_scheme_def is_lower_def)
  from remote_scheme_iff [of "''ssh://host/repo''"] a
  have "\<exists>ls rest. ''ssh://host/repo'' = ls @ ''://'' @ rest \<and> list_all is_lower ls"
    unfolding list_all_iff by blast
  moreover from remote_scheme_iff [of "''s3://host/repo''" env0 "''b''" world0] c
  have "is_remote_git_repository env0 ''s3://host/repo'' ''b'' world0 = (None, ''s3://host/repo'', world0)"
    by blast
  ultimately show ?thesis using a b c by blast
qed

lemma takeWhile_upto:
  "c \<notin> set u \<Longrightarrow> takeWhile (\<lambda>x. x \<noteq> c) (u @ c # r) = u"
  by (induction u) auto

lemma takeWhile_skip:
  "c \<notin> set u \<Longrightarrow> takeWhile (\<lambda>x. x \<noteq> c) (u @ r) = u @ takeWhile (\<lambda>x. x \<noteq> c) r"
  by (induction u) auto

lemma takeWhile_before:
  "length (takeWhile (\<lambda>x. x \<noteq> c) (h @ c # t)) \<le> length h"
  by (induction h) auto

lemma strip_username_at:
  "strncmp_eq s ''https://'' \<Longrightarrow> strchr_from s 0 CHR ''@'' = Some at \<Longrightarrow>
   strchr_from s 8 CHR ''/'' = Some slash \<Longrightarrow> slash > at \<Longrightarrow>
   strip_username s = (take 8 s @ drop (at + 1) s, Some (take (at - 8) (drop 8 s)))"
  by (simp add: strip_username_def)

lemma strip_username_not_at:
  "strchr_from s 0 CHR ''@'' = None \<or>
   strchr_from s 8 CHR ''/'' = None \<or>
   (\<exists>at slash. strchr_from s 0 CHR ''@'' = Some at \<and> strchr_from s 8 CHR ''/'' = Some slash \<and> slash \<le> at)
   \<Longrightarrow> strip_username s = (s, None)"
  by (auto simp: strip_username_def split: option.splits)

lemma strip_username_found:
  assumes "CHR ''@'' \<notin> set u" and "CHR ''/'' \<notin> set u" and "CHR ''/'' \<in> set rest"
  shows "strip_username (''https://'' @ u @ ''@'' @ rest) = (''https://'' @ rest, Some u)"
proof -
  let ?s = "''https://'' @ u @ ''@'' @ rest"
  have pre: "strncmp_eq ?s ''https://''" by (simp add: strncmp_eq_def)
  have "takeWhile (\<lambda>x. x \<noteq> CHR ''@'') ((''https://'' @ u) @ CHR ''@'' # rest) = ''https://'' @ u"
    by (rule takeWhile_upto) (use assms(1) in simp)
  then have at: "strchr_from ?s 0 CHR ''@'' = Some (8 + length u)"
    by (simp add: strchr_from_def)
  have "takeWhile (\<lambda>x. x \<noteq> CHR ''/'') (u @ CHR ''@'' # rest)
          = u @ CHR ''@'' # takeWhile (\<lambda>x. x \<noteq> CHR ''/'') rest"
    using assms(2) by (simp add: takeWhile_skip)
  then have sl: "strchr_from ?s 8 CHR ''/'' =
                   Some (8 + (length u + 1 + length (takeWhile (\<lambda>x. x \<noteq> CHR ''/'') rest)))"
    using assms(3) by (simp add: strchr_from_def)
  have step: "strip_username ?s =
                (take 8 ?s @ drop (8 + length u + 1) ?s, Some (take (8 + length u - 8) (drop 8 ?s)))"
    by (rule strip_username_at [OF pre at sl]) simp
  have dr: "drop (8 + length u + 1) ?s = rest"
  proof -
    have "?s = (''https://'' @ u @ ''@'') @ rest" by simp
    moreover have "length (''https://'' @ u @ ''@'') = 8 + length u + 1" by simp
    ultimately show ?thesis by (metis append_eq_conv_conj)
  qed
  have tk: "take 8 ?s = ''https://''" by simp
  have us: "take (8 + length u - 8) (drop 8 ?s) = u" by simp
  show ?thesis unfolding step dr tk us by simp
qed

lemma strip_username_path_at:
  assumes "CHR ''@'' \<notin> set h"
  shows "strip_username (''https://'' @ h @ ''/'' @ t) = (''https://'' @ h @ ''/'' @ t, None)"
proof -
  let ?s = "''https://'' @ h @ ''/'' @ t"
  have sl: "strchr_from ?s 8 CHR ''/'' = Some (8 + length (takeWhile (\<lambda>x. x \<noteq> CHR ''/'') (h @ CHR ''/'' # t)))"
    by (simp add: strchr_from_def)
  have le: "length (takeWhile (\<lambda>x. x \<noteq> CHR ''/'') (h @ CHR ''/'' # t)) \<le> length h"
    by (rule takeWhile_before)
  show ?thesis
  proof (cases "strchr_from ?s 0 CHR ''@''")
    case None
    then show ?thesis by (intro strip_username_not_at) simp
  next
    case (Some at)
    have "takeWhile (\<lambda>x. x \<noteq> CHR ''@'') ((''https://'' @ h @ ''/'') @ t)
            = (''https://'' @ h @ ''/'') @ takeWhile (\<lambda>x. x \<noteq> CHR ''@'') t"
      by (rule takeWhile_skip) (use assms in auto)
    with Some have "at = 8 + length h + 1 + length (takeWhile (\<lambda>x. x \<noteq> CHR ''@'') t)"
      by (auto simp: strchr_from_def split: if_splits)
    with le have "8 + length (takeWhile (\<lambda>x. x \<noteq> CHR ''/'') (h @ CHR ''/'' # t)) \<le> at" by simp
    with Some sl show ?thesis by (intro strip_username_not_at) blast
  qed
qed

lemma strip_username_example:
  "strip_username ''https://user%40host@example.com/repo'' = (''https://example.com/repo'', Some ''user%40host'')"
  by (simp add: strip_username_def strncmp_eq_def strchr_from_def)

lemma parse_example_https:
  "parse_locator ''https://user%40host@example.com/repo[main]'' =
     Some (''https://user%40host@example.com/repo'', ''main'')"
  by code_simp

lemma scan_example_https:
  "scan_locator ''https://user%40host@example.com/repo[main]'' = Some (36, 4, 1)"
  by code_simp

lemma is_remote_example_https:
  "is_remote_git_repository e ''https://user%40host@example.com/repo'' ''main'' w =
     (case get_local_dir e ''https://example.com/repo'' ''main'' of
        None \<Rightarrow>
          (None, ''https://example.com/repo'',
           w\<lparr>prefs := (prefs w)\<lparr>cloud_storage_email_encoded := Some ''user%40host''\<rparr>\<rparr>)
      | Some localdir \<Rightarrow>
          (case get_remote_repo e localdir ''https://example.com/repo'' ''main''
                  (w\<lparr>prefs := (prefs w)\<lparr>cloud_storage_email_encoded := Some ''user%40host''\<rparr>\<rparr>) of
             (r, w') \<Rightarrow> (r, ''https://example.com/repo'', w')))"
proof -
  have h: "has_remote_scheme ''https://user%40host@example.com/repo''"
    by (simp add: has_remote_scheme_def is_lower_def)
  have f: "\<not> strncmp_eq ''https://user%40host@example.com/repo'' ''file://''"
    by (simp add: strncmp_eq_def)
  show ?thesis
    by (simp add: is_remote_git_repository_def h f strip_username_example Let_def
          split: option.split prod.split)
qed

text \<open>
  C7. In an \<open>https://\<close> URL whose first \<open>@\<close> comes before the first \<open>/\<close> after the
  prefix, the text between the prefix and that \<open>@\<close> is taken as the user name and the
  rest of the string is moved up to the prefix. When no \<open>@\<close> comes before that first
  \<open>/\<close> the URL is left as it is and no user name is taken. The example of the
  specification parses to the branch \<open>main\<close>, the user name \<open>user%40host\<close> and the
  URL \<open>https://example.com/repo\<close>, which is the remote that is hashed and fetched.
\<close>

theorem strip_username_spec:
  "(CHR ''@'' \<notin> set u \<and> CHR ''/'' \<notin> set u \<and> CHR ''/'' \<in> set rest \<longrightarrow>
      strip_username (''https://'' @ u @ ''@'' @ rest) = (''https://'' @ rest, Some u)) \<and>
   (CHR ''@'' \<notin> set h \<longrightarrow>
      strip_username (''https://'' @ h @ ''/'' @ t) = (''https://'' @ h @ ''/'' @ t, None)) \<and>
   parse_locator ''https://user%40host@example.com/repo[main]'' =
     Some (''https://user%40host@example.com/repo'', ''main'') \<and>
   strip_username ''https://user%40host@example.com/repo'' =
     (''https://example.com/repo'', Some ''user%40host'') \<and>
   is_remote_git_repository e ''https://user%40host@example.com/repo'' ''main'' w =
     (case get_local_dir e ''https://example.com/repo'' ''main'' of
        None \<Rightarrow>
          (None, ''https://example.com/repo'',
           w\<lparr>prefs := (prefs w)\<lparr>cloud_storage_email_encoded := Some ''user%40host''\<rparr>\<rparr>)
      | Some localdir \<Rightarrow>
          (case get_remote_repo e localdir ''https://example.com/repo'' ''main''
                  (w\<lparr>prefs := (prefs w)\<lparr>cloud_storage_email_encoded := Some ''user%40host''\<rparr>\<rparr>) of
             (r, w') \<Rightarrow> (r, ''https://example.com/repo'', w')))"
  using strip_username_found [of u rest] strip_username_path_at [of h t]
    parse_example_https strip_username_example is_remote_example_https [of e w]
  by blast

theorem strip_username_spec_witness:
  "CHR ''@'' \<notin> set ''diver'' \<and> CHR ''/'' \<notin> set ''diver'' \<and> CHR ''/'' \<in> set ''cloud.example.org/log'' \<and>
   strip_username (''https://'' @ ''diver'' @ ''@'' @ ''cloud.example.org/log'') =
     (''https://'' @ ''cloud.example.org/log'', Some ''diver'') \<and>
   CHR ''@'' \<notin> set ''cloud.example.org'' \<and>
   strip_username (''https://'' @ ''cloud.example.org'' @ ''/'' @ ''a@b/log'') =
     (''https://'' @ ''cloud.example.org'' @ ''/'' @ ''a@b/log'', None)"
  using strip_username_spec [of "''diver''" "''cloud.example.org/log''" "''cloud.example.org''" "''a@b/log''"
      env0 world0]
  by simp


subsection \<open>The point of no return\<close>

text \<open>
  C9. Once the name has the shape of a locator, \<open>is_git_repository\<close> does not return
  NULL. It returns a repository and writes the branch text, or it returns the dummy
  repository and writes the whole name: the latter when an allocation fails, when the
  path is neither a remote that yields a repository nor an existing directory, and when
  the directory cannot be opened as a repository.
\<close>

theorem point_of_no_return:
  assumes "scan_locator filename = Some (flen, blen, offset)"
  shows "fst (is_git_repository e filename w) \<noteq> NULL \<and>
     ((\<exists>h. fst (is_git_repository e filename w) = Repo h) \<and>
        fst (snd (is_git_repository e filename w)) = Some (branch_of filename flen blen offset)
      \<or> fst (is_git_repository e filename w) = dummy_git_repository \<and>
        fst (snd (is_git_repository e filename w)) = Some filename) \<and>
     (alloc_fails e Alloc_loc \<or> alloc_fails e Alloc_branch \<longrightarrow>
        is_git_repository e filename w = (dummy_git_repository, Some filename, w)) \<and>
     (\<not> alloc_fails e Alloc_loc \<and> \<not> alloc_fails e Alloc_branch \<and>
      is_remote_git_repository e (loc_of filename flen) (branch_of filename flen blen offset) w
        = (None, loc', w') \<and>
      (stat w' loc' \<noteq> Some S_IFDIR \<or> git_repository_open w' loc' = None) \<longrightarrow>
        is_git_repository e filename w = (dummy_git_repository, Some filename, w')) \<and>
     (\<not> alloc_fails e Alloc_loc \<and> \<not> alloc_fails e Alloc_branch \<and>
      is_remote_git_repository e (loc_of filename flen) (branch_of filename flen blen offset) w
        = (None, loc', w') \<and>
      stat w' loc' = Some S_IFDIR \<and> git_repository_open w' loc' \<noteq> None \<longrightarrow>
        is_git_repository e filename w
          = (Repo loc', Some (branch_of filename flen blen offset), w')) \<and>
     (\<not> alloc_fails e Alloc_loc \<and> \<not> alloc_fails e Alloc_branch \<and>
      is_remote_git_repository e (loc_of filename flen) (branch_of filename flen blen offset) w
        = (Some h', loc', w') \<longrightarrow>
        is_git_repository e filename w
          = (Repo h', Some (branch_of filename flen blen offset), w'))"
  unfolding is_git_repository_def format_string_def
  by (auto simp: assms split: option.splits prod.splits file_kind.splits)

theorem point_of_no_return_witness:
  "scan_locator ''/a/b/c[mybranch]'' = Some (6, 8, 1) \<and>
   is_git_repository env0 ''/a/b/c[mybranch]'' world0 =
     (dummy_git_repository, Some ''/a/b/c[mybranch]'', world0) \<and>
   is_git_repository (env0\<lparr>alloc_fails := (\<lambda>site. site = Alloc_branch)\<rparr>) ''/a/b/c[mybranch]''
       (world0\<lparr>fs := [(''/a/b/c'', S_IFDIR)], repos := [(''/a/b/c'', repo0)]\<rparr>) =
     (dummy_git_repository, Some ''/a/b/c[mybranch]'',
      world0\<lparr>fs := [(''/a/b/c'', S_IFDIR)], repos := [(''/a/b/c'', repo0)]\<rparr>) \<and>
   is_git_repository env0 ''/a/b/c[mybranch]''
       (world0\<lparr>fs := [(''/a/b/c'', S_IFDIR)], repos := [(''/a/b/c'', repo0)]\<rparr>) =
     (Repo ''/a/b/c'', Some ''mybranch'',
      world0\<lparr>fs := [(''/a/b/c'', S_IFDIR)], repos := [(''/a/b/c'', repo0)]\<rparr>)"
proof -
  let ?f = "''/a/b/c[mybranch]''"
  let ?w = "world0\<lparr>fs := [(''/a/b/c'', S_IFDIR)], repos := [(''/a/b/c'', repo0)]\<rparr>"
  have s: "scan_locator ?f = Some (6, 8, 1)" by code_simp
  have l: "loc_of ?f 6 = ''/a/b/c''" "branch_of ?f 6 8 1 = ''mybranch''"
    by (simp_all add: loc_of_def branch_of_def)
  have n: "\<not> has_remote_scheme ''/a/b/c''"
    by (simp add: has_remote_scheme_def is_lower_def)
  have r: "\<And>w. is_remote_git_repository env0 ''/a/b/c'' ''mybranch'' w = (None, ''/a/b/c'', w)"
    using n by (rule no_scheme_is_local)
  have a: "\<not> alloc_fails env0 Alloc_loc \<and> \<not> alloc_fails env0 Alloc_branch"
    by (simp add: env0_def)
  have rr: "\<And>w. is_remote_git_repository env0 (loc_of ?f 6) (branch_of ?f 6 8 1) w = (None, ''/a/b/c'', w)"
    unfolding l by (rule r)
  have br: "branch_of ?f 6 8 1 = ''mybranch''" by (rule l(2))
  have st0: "stat world0 ''/a/b/c'' \<noteq> Some S_IFDIR \<or> git_repository_open world0 ''/a/b/c'' = None"
    by (simp add: stat_def world0_def)
  have st1: "stat ?w ''/a/b/c'' = Some S_IFDIR \<and> git_repository_open ?w ''/a/b/c'' \<noteq> None"
    by (simp add: stat_def git_repository_open_def)
  have af: "alloc_fails (env0\<lparr>alloc_fails := (\<lambda>site. site = Alloc_branch)\<rparr>) Alloc_loc \<or>
            alloc_fails (env0\<lparr>alloc_fails := (\<lambda>site. site = Alloc_branch)\<rparr>) Alloc_branch"
    by simp
  have 1: "is_git_repository env0 ?f world0 = (dummy_git_repository, Some ?f, world0)"
    using point_of_no_return [OF s, where e = env0 and w = world0 and loc' = "''/a/b/c''"
        and w' = world0 and h' = "''x''"] a rr [of world0] st0
    by blast
  have 2: "is_git_repository (env0\<lparr>alloc_fails := (\<lambda>site. site = Alloc_branch)\<rparr>) ?f ?w
             = (dummy_git_repository, Some ?f, ?w)"
    using point_of_no_return [OF s, where e = "env0\<lparr>alloc_fails := (\<lambda>site. site = Alloc_branch)\<rparr>"
        and w = ?w and loc' = "''/a/b/c''" and w' = ?w and h' = "''x''"] af
    by blast
  have 3: "is_git_repository env0 ?f ?w = (Repo ''/a/b/c'', Some (branch_of ?f 6 8 1), ?w)"
    using point_of_no_return [OF s, where e = env0 and w = ?w and loc' = "''/a/b/c''"
        and w' = ?w and h' = "''x''"] a rr [of ?w] st1
    by blast
  note 3 = 3 [unfolded br]
  from s 1 2 3 show ?thesis by blast
qed


subsection \<open>The preferences and the credentials\<close>

lemma https_calls_refl: "https_calls e w w"
  by (simp add: https_calls_def)

lemma https_calls_report: "https_calls e w w' \<Longrightarrow> https_calls e w (report_error m w')"
  by (simp add: https_calls_def report_error_def)

lemma https_calls_store: "https_calls e w w' \<Longrightarrow> https_calls e w (store_repo path repo w')"
  by (simp add: https_calls_def store_repo_def)

lemma https_supplied:
  "USE_LIBGIT23_API e \<Longrightarrow> prefs w' = prefs w \<Longrightarrow>
   supplied e w' url (callback_for e HTTPS) = Some (credential_https_cb e w [] None)"
  by (simp add: supplied_def callback_for_def credential_https_cb_def)

lemma https_calls_add:
  assumes "https_calls e w w'" and "call_cred c = Some (credential_https_cb e w [] None)"
  shows "https_calls e w (w'\<lparr>net := net w' @ [c]\<rparr>)"
proof -
  from assms(1) have le: "length (net w) \<le> length (net w')"
    by (metis https_calls_def length_take min.cobounded1 min_def nat_le_linear take_all)
  with assms show ?thesis by (simp add: https_calls_def)
qed

lemma https_calls_foreach:
  "https_calls e w w' \<Longrightarrow> https_calls e w (snd (git_status_foreach repo check_clean w'))"
  using status_foreach_frame [of "status repo" w']
  by (simp add: https_calls_def git_status_foreach_def)

lemma https_calls_reset:
  "https_calls e w w' \<Longrightarrow> https_calls e w (snd (snd (reset_to_remote e repo local r w')))"
  by (simp add: reset_to_remote_def https_calls_report)

lemma https_calls_push:
  assumes "https_calls e w w'" and "USE_LIBGIT23_API e"
  shows "https_calls e w (snd (snd (update_remote e repo origin local remote HTTPS w')))"
proof -
  have p: "prefs w' = prefs w" using assms(1) by (simp add: https_calls_def)
  have "https_calls e w
          (w'\<lparr>net := net w' @ [Net_push origin (ref_name local) (supplied e w' origin (callback_for e HTTPS))]\<rparr>)"
    using assms(1) by (rule https_calls_add) (simp add: call_cred_def https_supplied [OF assms(2) p])
  then show ?thesis
    by (simp add: update_remote_def Let_def https_calls_report split: option.split)
qed

lemma https_calls_try:
  assumes "https_calls e w w'" and "USE_LIBGIT23_API e"
  shows "https_calls e w (snd (snd (try_to_update e repo origin local remote HTTPS w')))"
proof -
  obtain rc w1 where f: "git_status_foreach repo check_clean w' = (rc, w1)"
    by (cases "git_status_foreach repo check_clean w'")
  have w1: "https_calls e w w1"
    using https_calls_foreach [OF assms(1), of repo] f by simp
  show ?thesis
    unfolding try_to_update_def
    using assms(1) w1 https_calls_reset [OF w1] https_calls_push [OF w1 assms(2)]
    by (simp add: f https_calls_report split: option.split)
qed

lemma https_calls_status:
  assumes "https_calls e w w'" and "USE_LIBGIT23_API e"
  shows "https_calls e w (snd (check_remote_status e repo origin branch HTTPS w'))"
proof (cases "git_branch_lookup repo branch")
  case None
  then show ?thesis
    using assms(1) by (simp add: check_remote_status_def https_calls_report)
next
  case l: (Some local_ref)
  show ?thesis
  proof (cases "git_branch_upstream repo local_ref")
    case None
    then show ?thesis
      using assms(1) l by (simp add: check_remote_status_def https_calls_report)
  next
    case r: (Some remote_ref)
    obtain rc repo' w2 where t: "try_to_update e repo origin local_ref remote_ref HTTPS w' = (rc, repo', w2)"
      by (cases "try_to_update e repo origin local_ref remote_ref HTTPS w'")
    have "https_calls e w w2"
      using https_calls_try [OF assms, of repo origin local_ref remote_ref] t by simp
    then show ?thesis
      using l r t by (simp add: check_remote_status_def)
  qed
qed

lemma https_calls_update:
  assumes "USE_LIBGIT23_API e" and "remote_type_of remote = HTTPS"
  shows "https_calls e w (snd (update_local_repo e localdir remote branch w))"
proof (cases "git_repository_open w localdir")
  case None
  then show ?thesis
    by (simp add: update_local_repo_def https_calls_report https_calls_refl)
next
  case (Some repo0)
  let ?repo = "case proxy_string e of
                 Some p \<Rightarrow> git_config_set_string repo0 ''http.proxy'' p
               | None \<Rightarrow> repo0"
  show ?thesis
  proof (cases "git_remote_lookup ?repo ''origin''")
    case None
    then show ?thesis
      using Some assms(2)
      by (simp add: update_local_repo_def Let_def https_calls_report https_calls_store https_calls_refl)
  next
    case origin: (Some origin)
    let ?w1 = "w\<lparr>net := net w @ [Net_fetch origin (supplied e w origin (callback_for e HTTPS))]\<rparr>"
    have w1: "https_calls e w ?w1"
      by (rule https_calls_add [OF https_calls_refl])
         (simp add: call_cred_def https_supplied [OF assms(1)])
    show ?thesis
    proof (cases "fetch_result e ?repo")
      case None
      then show ?thesis
        using Some origin assms(2) w1
        by (simp add: update_local_repo_def Let_def https_calls_report https_calls_store)
    next
      case fetched: (Some repo1)
      obtain repo2 w2 where c: "check_remote_status e repo1 origin branch HTTPS ?w1 = (repo2, w2)"
        by (cases "check_remote_status e repo1 origin branch HTTPS ?w1")
      have "https_calls e w w2"
        using https_calls_status [OF w1 assms(1), of repo1 origin branch] c by simp
      then show ?thesis
        using Some origin fetched assms(2) c
        by (simp add: update_local_repo_def Let_def https_calls_store)
    qed
  qed
qed

lemma https_calls_create:
  assumes "USE_LIBGIT23_API e" and "remote_type_of remote = HTTPS"
  shows "https_calls e w (snd (create_local_repo e localdir remote branch w))"
proof -
  let ?w1 = "w\<lparr>net := net w @ [Net_clone remote localdir branch (supplied e w remote (callback_for e HTTPS))]\<rparr>"
  have w1: "https_calls e w ?w1"
    by (rule https_calls_add [OF https_calls_refl])
       (simp add: call_cred_def https_supplied [OF assms(1)])
  then have w2: "\<And>repo. https_calls e w
                  (?w1\<lparr>fs := AList.update localdir S_IFDIR (fs ?w1),
                        repos := AList.update localdir repo (repos ?w1)\<rparr>)"
    by (simp add: https_calls_def)
  show ?thesis
    using w1 w2 assms(2)
    by (simp add: create_local_repo_def Let_def https_calls_report split: option.split)
qed

lemma https_calls_get:
  assumes "USE_LIBGIT23_API e" and "remote_type_of remote = HTTPS"
  shows "https_calls e w (snd (get_remote_repo e localdir remote branch w))"
  using https_calls_update [OF assms, of w localdir branch] https_calls_create [OF assms, of w localdir branch]
  by (simp add: get_remote_repo_def https_calls_report https_calls_refl split: option.split)

text \<open>Every function below the parser leaves the preferences alone.\<close>

lemma prefs_reset: "prefs (snd (snd (reset_to_remote e repo local r w))) = prefs w"
  by (simp add: reset_to_remote_def report_error_def)

lemma prefs_push: "prefs (snd (snd (update_remote e repo origin local remote rt w))) = prefs w"
  by (simp add: update_remote_def Let_def report_error_def split: option.split)

lemma prefs_try: "prefs (snd (snd (try_to_update e repo origin local remote rt w))) = prefs w"
proof -
  obtain rc w1 where f: "git_status_foreach repo check_clean w = (rc, w1)"
    by (cases "git_status_foreach repo check_clean w")
  have w1: "prefs w1 = prefs w"
    using status_foreach_frame [of "status repo" w] f by (simp add: git_status_foreach_def)
  show ?thesis
    unfolding try_to_update_def
    using w1 prefs_reset [of e repo local _ w1] prefs_push [of e repo origin local remote rt w1]
    by (simp add: f report_error_def split: option.split)
qed

lemma prefs_status: "prefs (snd (check_remote_status e repo origin branch rt w)) = prefs w"
proof (cases "git_branch_lookup repo branch")
  case None
  then show ?thesis
    by (simp add: check_remote_status_def report_error_def)
next
  case l: (Some local_ref)
  show ?thesis
  proof (cases "git_branch_upstream repo local_ref")
    case None
    then show ?thesis
      using l by (simp add: check_remote_status_def report_error_def)
  next
    case r: (Some remote_ref)
    obtain rc repo' w2 where t: "try_to_update e repo origin local_ref remote_ref rt w = (rc, repo', w2)"
      by (cases "try_to_update e repo origin local_ref remote_ref rt w")
    have "prefs w2 = prefs w"
      using prefs_try [of e repo origin local_ref remote_ref rt w] t by simp
    then show ?thesis
      using l r t by (simp add: check_remote_status_def)
  qed
qed

lemma prefs_update: "prefs (snd (update_local_repo e localdir remote branch w)) = prefs w"
proof (cases "git_repository_open w localdir")
  case None
  then show ?thesis
    by (simp add: update_local_repo_def report_error_def)
next
  case (Some repo0)
  let ?rt = "remote_type_of remote"
  let ?repo = "if ?rt = HTTPS then
                 (case proxy_string e of
                    Some p \<Rightarrow> git_config_set_string repo0 ''http.proxy'' p
                  | None \<Rightarrow> repo0)
               else repo0"
  show ?thesis
  proof (cases "git_remote_lookup ?repo ''origin''")
    case None
    then show ?thesis
      using Some
      by (simp add: update_local_repo_def Let_def report_error_def store_repo_def)
  next
    case origin: (Some origin)
    let ?w1 = "w\<lparr>net := net w @ [Net_fetch origin (supplied e w origin (callback_for e ?rt))]\<rparr>"
    show ?thesis
    proof (cases "fetch_result e ?repo")
      case None
      then show ?thesis
        using Some origin
        by (simp add: update_local_repo_def Let_def report_error_def store_repo_def)
    next
      case fetched: (Some repo1)
      obtain repo2 w2 where c: "check_remote_status e repo1 origin branch ?rt ?w1 = (repo2, w2)"
        by (cases "check_remote_status e repo1 origin branch ?rt ?w1")
      have "prefs w2 = prefs w"
        using prefs_status [of e repo1 origin branch ?rt ?w1] c by simp
      then show ?thesis
        using Some origin fetched c
        by (simp add: update_local_repo_def Let_def store_repo_def)
    qed
  qed
qed

lemma prefs_create: "prefs (snd (create_local_repo e localdir remote branch w)) = prefs w"
  by (simp add: create_local_repo_def Let_def report_error_def split: option.split)

lemma prefs_get: "prefs (snd (get_remote_repo e localdir remote branch w)) = prefs w"
  by (simp add: get_remote_repo_def prefs_update prefs_create report_error_def split: option.split)


lemma strip_username_Some_https:
  assumes "strip_username s = (r, Some u)"
  shows "remote_type_of r = HTTPS"
proof -
  from assms have pre: "strncmp_eq s ''https://''"
    by (auto simp: strip_username_def split: if_splits)
  from assms obtain at where "r = take 8 s @ drop (at + 1) s"
    by (auto simp: strip_username_def split: if_splits option.splits)
  moreover have l8: "length ''https://'' = 8" by simp
  have "take 8 s = ''https://''"
    using pre unfolding strncmp_eq_def l8 .
  ultimately have "r = ''https://'' @ drop (at + 1) s"
    by simp
  then show ?thesis
    by (simp add: remote_type_of_def strncmp_eq_def)
qed

lemma is_remote_extracts:
  assumes "has_remote_scheme buf"
    and "strip_username (drop (if strncmp_eq buf ''file://'' then 7 else 0) buf) = (remote, Some u)"
  shows "prefs (snd (snd (is_remote_git_repository e buf branch w))) =
           (prefs w)\<lparr>cloud_storage_email_encoded := Some u\<rparr> \<and>
         (USE_LIBGIT23_API e \<longrightarrow>
            https_calls e (w\<lparr>prefs := (prefs w)\<lparr>cloud_storage_email_encoded := Some u\<rparr>\<rparr>)
              (snd (snd (is_remote_git_repository e buf branch w))))"
proof -
  let ?w1 = "w\<lparr>prefs := (prefs w)\<lparr>cloud_storage_email_encoded := Some u\<rparr>\<rparr>"
  have rt: "remote_type_of remote = HTTPS"
    using assms(2) by (rule strip_username_Some_https)
  show ?thesis
  proof (cases "get_local_dir e remote branch")
    case None
    then show ?thesis
      using assms by (simp add: is_remote_git_repository_def Let_def https_calls_refl)
  next
    case (Some localdir)
    obtain r w2 where g: "get_remote_repo e localdir remote branch ?w1 = (r, w2)"
      by (cases "get_remote_repo e localdir remote branch ?w1")
    have p: "prefs w2 = prefs ?w1"
      using prefs_get [of e localdir remote branch ?w1] g by simp
    have c: "USE_LIBGIT23_API e \<longrightarrow> https_calls e ?w1 w2"
      using https_calls_get [OF _ rt, of e ?w1 localdir branch] g by simp
    show ?thesis
      using assms Some g p c by (simp add: is_remote_git_repository_def Let_def)
  qed
qed

lemma is_remote_no_user:
  assumes "\<not> has_remote_scheme buf \<or>
           strip_username (drop (if strncmp_eq buf ''file://'' then 7 else 0) buf) = (remote, None)"
  shows "prefs (snd (snd (is_remote_git_repository e buf branch w))) = prefs w"
proof (cases "has_remote_scheme buf")
  case False
  then show ?thesis by (simp add: is_remote_git_repository_def)
next
  case True
  with assms have s: "strip_username (drop (if strncmp_eq buf ''file://'' then 7 else 0) buf) = (remote, None)"
    by simp
  show ?thesis
  proof (cases "get_local_dir e remote branch")
    case None
    then show ?thesis
      using True s by (simp add: is_remote_git_repository_def Let_def)
  next
    case (Some localdir)
    obtain r w2 where g: "get_remote_repo e localdir remote branch w = (r, w2)"
      by (cases "get_remote_repo e localdir remote branch w")
    have "prefs w2 = prefs w"
      using prefs_get [of e localdir remote branch w] g by simp
    then show ?thesis
      using True s Some g by (simp add: is_remote_git_repository_def Let_def)
  qed
qed

lemma prefs_is_remote:
  "\<exists>x. prefs (snd (snd (is_remote_git_repository e buf branch w))) =
         (prefs w)\<lparr>cloud_storage_email_encoded := x\<rparr>"
proof -
  obtain remote user where
    s: "strip_username (drop (if strncmp_eq buf ''file://'' then 7 else 0) buf) = (remote, user)"
    by (cases "strip_username (drop (if strncmp_eq buf ''file://'' then 7 else 0) buf)")
  have same: "(prefs w)\<lparr>cloud_storage_email_encoded := cloud_storage_email_encoded (prefs w)\<rparr> = prefs w"
    by simp
  show ?thesis
  proof (cases "has_remote_scheme buf \<and> user \<noteq> None")
    case True
    then obtain u where "user = Some u" by auto
    with True s is_remote_extracts [of buf remote u e branch w] show ?thesis by blast
  next
    case False
    with s have "\<not> has_remote_scheme buf \<or>
           strip_username (drop (if strncmp_eq buf ''file://'' then 7 else 0) buf) = (remote, None)"
      by auto
    from is_remote_no_user [OF this, of e branch w] same show ?thesis by metis
  qed
qed

lemma prefs_is_git_repository:
  "\<exists>x. prefs (snd (snd (is_git_repository e filename w))) =
         (prefs w)\<lparr>cloud_storage_email_encoded := x\<rparr>"
proof -
  have same: "\<exists>x. prefs w = (prefs w)\<lparr>cloud_storage_email_encoded := x\<rparr>"
    by (rule exI [of _ "cloud_storage_email_encoded (prefs w)"]) simp
  show ?thesis
  proof (cases "scan_locator filename")
    case None
    then show ?thesis using same by (simp add: is_git_repository_def)
  next
    case (Some t)
    obtain flen blen offset where t: "t = (flen, blen, offset)" by (cases t)
    show ?thesis
    proof (cases "alloc_fails e Alloc_loc \<or> alloc_fails e Alloc_branch")
      case True
      then show ?thesis
        using Some t same by (auto simp: is_git_repository_def format_string_def)
    next
      case False
      obtain r loc' w' where
        i: "is_remote_git_repository e (loc_of filename flen) (branch_of filename flen blen offset) w
              = (r, loc', w')"
        by (cases "is_remote_git_repository e (loc_of filename flen) (branch_of filename flen blen offset) w")
      have "snd (snd (is_git_repository e filename w)) = w'"
        using Some t False i
        by (auto simp: is_git_repository_def format_string_def split: option.splits file_kind.splits)
      moreover have "\<exists>x. prefs w' = (prefs w)\<lparr>cloud_storage_email_encoded := x\<rparr>"
        using prefs_is_remote [of e "loc_of filename flen" "branch_of filename flen blen offset" w] i
        by simp
      ultimately show ?thesis by simp
    qed
  qed
qed

text \<open>
  C10. When the parser takes a user name out of an \<open>https://\<close> URL, the world after the
  call has that name in the field \<open>cloud_storage_email_encoded\<close> of the preferences and
  every other field as before; the HTTPS credential callback then supplies that name with
  the stored password, and (where the callbacks are compiled in) each fetch, push and
  clone that the call adds carries exactly these credentials. When no user name is taken
  the preferences are unchanged, and whatever the name, \<open>is_git_repository\<close> changes no
  field of the preferences but this one.
\<close>

theorem identity_goes_to_prefs:
  "(has_remote_scheme buf \<and>
    strip_username (drop (if strncmp_eq buf ''file://'' then 7 else 0) buf) = (remote, Some u) \<longrightarrow>
      prefs (snd (snd (is_remote_git_repository e buf branch w))) =
        (prefs w)\<lparr>cloud_storage_email_encoded := Some u\<rparr> \<and>
      credential_https_cb e (snd (snd (is_remote_git_repository e buf branch w))) url un =
        Cred_userpass_plaintext (Some u)
          (case cloud_storage_password (prefs w) of Some p \<Rightarrow> p | None \<Rightarrow> []) \<and>
      (USE_LIBGIT23_API e \<longrightarrow>
         take (length (net w)) (net (snd (snd (is_remote_git_repository e buf branch w)))) = net w \<and>
         list_all
           (\<lambda>c. call_cred c =
              Some (Cred_userpass_plaintext (Some u)
                      (case cloud_storage_password (prefs w) of Some p \<Rightarrow> p | None \<Rightarrow> [])))
           (drop (length (net w)) (net (snd (snd (is_remote_git_repository e buf branch w))))))) \<and>
   (\<not> has_remote_scheme buf \<or>
    strip_username (drop (if strncmp_eq buf ''file://'' then 7 else 0) buf) = (remote, None) \<longrightarrow>
      prefs (snd (snd (is_remote_git_repository e buf branch w))) = prefs w) \<and>
   (\<exists>x. prefs (snd (snd (is_git_repository e filename w))) =
          (prefs w)\<lparr>cloud_storage_email_encoded := x\<rparr>)"
proof -
  let ?w' = "snd (snd (is_remote_git_repository e buf branch w))"
  let ?w1 = "w\<lparr>prefs := (prefs w)\<lparr>cloud_storage_email_encoded := Some u\<rparr>\<rparr>"
  let ?cred = "Cred_userpass_plaintext (Some u)
                 (case cloud_storage_password (prefs w) of Some p \<Rightarrow> p | None \<Rightarrow> [])"
  have cb: "\<And>w2 url un. prefs w2 = (prefs w)\<lparr>cloud_storage_email_encoded := Some u\<rparr> \<Longrightarrow>
              credential_https_cb e w2 url un = ?cred"
    by (simp add: credential_https_cb_def)
  have a: "has_remote_scheme buf \<and>
    strip_username (drop (if strncmp_eq buf ''file://'' then 7 else 0) buf) = (remote, Some u) \<longrightarrow>
      prefs ?w' = (prefs w)\<lparr>cloud_storage_email_encoded := Some u\<rparr> \<and>
      credential_https_cb e ?w' url un = ?cred \<and>
      (USE_LIBGIT23_API e \<longrightarrow>
         take (length (net w)) (net ?w') = net w \<and>
         list_all (\<lambda>c. call_cred c = Some ?cred) (drop (length (net w)) (net ?w')))"
  proof (intro impI, elim conjE)
    assume h: "has_remote_scheme buf"
      and s: "strip_username (drop (if strncmp_eq buf ''file://'' then 7 else 0) buf) = (remote, Some u)"
    note x = is_remote_extracts [OF h s, of e branch w]
    have p: "prefs ?w' = (prefs w)\<lparr>cloud_storage_email_encoded := Some u\<rparr>" using x by blast
    have n: "USE_LIBGIT23_API e \<longrightarrow>
         take (length (net w)) (net ?w') = net w \<and>
         list_all (\<lambda>c. call_cred c = Some ?cred) (drop (length (net w)) (net ?w'))"
    proof
      assume "USE_LIBGIT23_API e"
      with x have "https_calls e ?w1 ?w'" by blast
      then show "take (length (net w)) (net ?w') = net w \<and>
         list_all (\<lambda>c. call_cred c = Some ?cred) (drop (length (net w)) (net ?w'))"
        by (simp add: https_calls_def cb [of ?w1])
    qed
    from p n cb [OF p] show "prefs ?w' = (prefs w)\<lparr>cloud_storage_email_encoded := Some u\<rparr> \<and>
      credential_https_cb e ?w' url un = ?cred \<and>
      (USE_LIBGIT23_API e \<longrightarrow>
         take (length (net w)) (net ?w') = net w \<and>
         list_all (\<lambda>c. call_cred c = Some ?cred) (drop (length (net w)) (net ?w')))"
      by blast
  qed
  have b: "\<not> has_remote_scheme buf \<or>
    strip_username (drop (if strncmp_eq buf ''file://'' then 7 else 0) buf) = (remote, None) \<longrightarrow>
      prefs ?w' = prefs w"
    using is_remote_no_user [of buf remote e branch w] by blast
  from a b prefs_is_git_repository [of e filename w] show ?thesis by blast
qed

theorem identity_goes_to_prefs_witness:
  "has_remote_scheme ''https://user%40host@example.com/repo'' \<and>
   strip_username ''https://user%40host@example.com/repo'' = (''https://example.com/repo'', Some ''user%40host'') \<and>
   USE_LIBGIT23_API env0 \<and>
   prefs (snd (snd (is_remote_git_repository env0 ''https://user%40host@example.com/repo'' ''main'' world0))) =
     \<lparr>cloud_storage_email_encoded = Some ''user%40host'', cloud_storage_password = Some ''secret''\<rparr> \<and>
   list_all (\<lambda>c. call_cred c = Some (Cred_userpass_plaintext (Some ''user%40host'') ''secret''))
     (net (snd (snd (is_remote_git_repository env0 ''https://user%40host@example.com/repo'' ''main'' world0)))) \<and>
   length (net (snd (snd (is_remote_git_repository env0 ''https://user%40host@example.com/repo'' ''main'' world0)))) = 1"
proof -
  let ?buf = "''https://user%40host@example.com/repo''"
  let ?w' = "snd (snd (is_remote_git_repository env0 ?buf ''main'' world0))"
  have h: "has_remote_scheme ?buf"
    by (simp add: has_remote_scheme_def is_lower_def)
  have f: "(if strncmp_eq ?buf ''file://'' then 7 else 0) = (0::nat)"
    by (simp add: strncmp_eq_def)
  have s: "strip_username (drop (if strncmp_eq ?buf ''file://'' then 7 else 0) ?buf)
             = (''https://example.com/repo'', Some ''user%40host'')"
    unfolding f by (simp add: strip_username_example)
  have u: "USE_LIBGIT23_API env0" by (simp add: env0_def)
  have pw: "cloud_storage_password (prefs world0) = Some ''secret''" "net world0 = []"
      "(prefs world0)\<lparr>cloud_storage_email_encoded := Some ''user%40host''\<rparr> =
         \<lparr>cloud_storage_email_encoded = Some ''user%40host'', cloud_storage_password = Some ''secret''\<rparr>"
    by (simp_all add: world0_def)
  have len: "length (net ?w') = 1"
    by (simp add: is_remote_example_https get_local_dir_def format_string_def get_remote_repo_def
          stat_def create_local_repo_def report_error_def env0_def world0_def Let_def)
  from identity_goes_to_prefs [where buf = ?buf and remote = "''https://example.com/repo''"
      and u = "''user%40host''" and e = env0 and branch = "''main''" and w = world0
      and url = "[]" and un = None and filename = "[]"] h s u
  have "prefs ?w' = (prefs world0)\<lparr>cloud_storage_email_encoded := Some ''user%40host''\<rparr> \<and>
        list_all (\<lambda>c. call_cred c = Some (Cred_userpass_plaintext (Some ''user%40host'')
            (case cloud_storage_password (prefs world0) of Some p \<Rightarrow> p | None \<Rightarrow> [])))
          (drop (length (net world0)) (net ?w'))"
    by blast
  then show ?thesis using h strip_username_example u len by (simp add: pw)
qed


subsection \<open>The cache address\<close>

lemma sha1_repo1_bytes: "bytes ''repo1'' @ [0] @ bytes ''branch'' = [0x72, 0x65, 0x70, 0x6f, 0x31, 0x00, 0x62, 0x72, 0x61, 0x6e, 0x63, 0x68]"
  by (simp add: bytes_def)

lemma sha1_repo1_words: "words_of (sha1_pad [0x72, 0x65, 0x70, 0x6f, 0x31, 0x00, 0x62, 0x72, 0x61, 0x6e, 0x63, 0x68]) = [0x7265706f, 0x31006272, 0x616e6368, 0x80000000, 0x00000000, 0x00000000, 0x00000000, 0x00000000, 0x00000000, 0x00000000, 0x00000000, 0x00000000, 0x00000000, 0x00000000, 0x00000000, 0x00000060]"
proof -
  have l: "length [0x72, 0x65, 0x70, 0x6f, 0x31, 0x00, 0x62, 0x72, 0x61, 0x6e, 0x63, 0x68 :: u8] = 12" by simp
  have k: "(119 - 12 mod 64) mod 64 = (43::nat)" by simp
  have r: "replicate 43 (0::u8) = [0, 0, 0, 0, 0, 0, 0, 0, 0, 0, 0, 0, 0, 0, 0, 0, 0, 0, 0, 0, 0, 0, 0, 0, 0, 0, 0, 0, 0, 0, 0, 0, 0, 0, 0, 0, 0, 0, 0, 0, 0, 0, 0]"
    by (simp add: eval_nat_numeral)
  show ?thesis unfolding sha1_pad_def l k r by (simp add: be32_def len_bytes_def)
qed

lemma sha1_repo1_block:
  "sha1_block (0x67452301, 0xEFCDAB89, 0x98BADCFE, 0x10325476, 0xC3D2E1F0) [0x7265706f, 0x31006272, 0x616e6368, 0x80000000, 0x00000000, 0x00000000, 0x00000000, 0x00000000, 0x00000000, 0x00000000, 0x00000000, 0x00000000, 0x00000000, 0x00000000, 0x00000000, 0x00000060] = (0xdb380e51, 0xe6e4c225, 0x61c1ff4d, 0x5b5b9564, 0x26962540)"
  by (simp add: sha1_block_def sha1_sched.simps rol_def sha1_f_def sha1_k_def)

lemma sha1_repo1: "SHA1 (bytes ''repo1'' @ [0] @ bytes ''branch'') = [0xdb, 0x38, 0x0e, 0x51, 0xe6, 0xe4, 0xc2, 0x25, 0x61, 0xc1, 0xff, 0x4d, 0x5b, 0x5b, 0x95, 0x64, 0x26, 0x96, 0x25, 0x40]"
proof -
  have b: "sha1_blocks (0x67452301, 0xEFCDAB89, 0x98BADCFE, 0x10325476, 0xC3D2E1F0) [0x7265706f, 0x31006272, 0x616e6368, 0x80000000, 0x00000000, 0x00000000, 0x00000000, 0x00000000, 0x00000000, 0x00000000, 0x00000000, 0x00000000, 0x00000000, 0x00000000, 0x00000000, 0x00000060] = (0xdb380e51, 0xe6e4c225, 0x61c1ff4d, 0x5b5b9564, 0x26962540)"
    by (subst sha1_blocks.simps, simp add: sha1_repo1_block, subst sha1_blocks.simps, simp)
  show ?thesis
    unfolding SHA1_def sha1_repo1_bytes sha1_repo1_words b by (simp add: bytes_of_def)
qed

lemma sha1_repo_bytes: "bytes ''repo'' @ [0] @ bytes ''1branch'' = [0x72, 0x65, 0x70, 0x6f, 0x00, 0x31, 0x62, 0x72, 0x61, 0x6e, 0x63, 0x68]"
  by (simp add: bytes_def)

lemma sha1_repo_words: "words_of (sha1_pad [0x72, 0x65, 0x70, 0x6f, 0x00, 0x31, 0x62, 0x72, 0x61, 0x6e, 0x63, 0x68]) = [0x7265706f, 0x00316272, 0x616e6368, 0x80000000, 0x00000000, 0x00000000, 0x00000000, 0x00000000, 0x00000000, 0x00000000, 0x00000000, 0x00000000, 0x00000000, 0x00000000, 0x00000000, 0x00000060]"
proof -
  have l: "length [0x72, 0x65, 0x70, 0x6f, 0x00, 0x31, 0x62, 0x72, 0x61, 0x6e, 0x63, 0x68 :: u8] = 12" by simp
  have k: "(119 - 12 mod 64) mod 64 = (43::nat)" by simp
  have r: "replicate 43 (0::u8) = [0, 0, 0, 0, 0, 0, 0, 0, 0, 0, 0, 0, 0, 0, 0, 0, 0, 0, 0, 0, 0, 0, 0, 0, 0, 0, 0, 0, 0, 0, 0, 0, 0, 0, 0, 0, 0, 0, 0, 0, 0, 0, 0]"
    by (simp add: eval_nat_numeral)
  show ?thesis unfolding sha1_pad_def l k r by (simp add: be32_def len_bytes_def)
qed

lemma sha1_repo_block:
  "sha1_block (0x67452301, 0xEFCDAB89, 0x98BADCFE, 0x10325476, 0xC3D2E1F0) [0x7265706f, 0x00316272, 0x616e6368, 0x80000000, 0x00000000, 0x00000000, 0x00000000, 0x00000000, 0x00000000, 0x00000000, 0x00000000, 0x00000000, 0x00000000, 0x00000000, 0x00000000, 0x00000060] = (0x07d34419, 0x1111a0e7, 0xda88fef3, 0xb5cd69e6, 0x8243c4d2)"
  by (simp add: sha1_block_def sha1_sched.simps rol_def sha1_f_def sha1_k_def)

lemma sha1_repo: "SHA1 (bytes ''repo'' @ [0] @ bytes ''1branch'') = [0x07, 0xd3, 0x44, 0x19, 0x11, 0x11, 0xa0, 0xe7, 0xda, 0x88, 0xfe, 0xf3, 0xb5, 0xcd, 0x69, 0xe6, 0x82, 0x43, 0xc4, 0xd2]"
proof -
  have b: "sha1_blocks (0x67452301, 0xEFCDAB89, 0x98BADCFE, 0x10325476, 0xC3D2E1F0) [0x7265706f, 0x00316272, 0x616e6368, 0x80000000, 0x00000000, 0x00000000, 0x00000000, 0x00000000, 0x00000000, 0x00000000, 0x00000000, 0x00000000, 0x00000000, 0x00000000, 0x00000000, 0x00000060] = (0x07d34419, 0x1111a0e7, 0xda88fef3, 0xb5cd69e6, 0x8243c4d2)"
    by (subst sha1_blocks.simps, simp add: sha1_repo_block, subst sha1_blocks.simps, simp)
  show ?thesis
    unfolding SHA1_def sha1_repo_bytes sha1_repo_words b by (simp add: bytes_of_def)
qed

text \<open>The test vector of FIPS 180 for the message \<open>abc\<close>.\<close>

lemma sha1_abc_words: "words_of (sha1_pad [0x61, 0x62, 0x63]) = [0x61626380, 0x00000000, 0x00000000, 0x00000000, 0x00000000, 0x00000000, 0x00000000, 0x00000000, 0x00000000, 0x00000000, 0x00000000, 0x00000000, 0x00000000, 0x00000000, 0x00000000, 0x00000018]"
proof -
  have l: "length [0x61, 0x62, 0x63 :: u8] = 3" by simp
  have k: "(119 - 3 mod 64) mod 64 = (52::nat)" by simp
  have r: "replicate 52 (0::u8) = [0, 0, 0, 0, 0, 0, 0, 0, 0, 0, 0, 0, 0, 0, 0, 0, 0, 0, 0, 0, 0, 0, 0, 0, 0, 0, 0, 0, 0, 0, 0, 0, 0, 0, 0, 0, 0, 0, 0, 0, 0, 0, 0, 0, 0, 0, 0, 0, 0, 0, 0, 0]"
    by (simp add: eval_nat_numeral)
  show ?thesis unfolding sha1_pad_def l k r by (simp add: be32_def len_bytes_def)
qed

lemma sha1_abc_block:
  "sha1_block (0x67452301, 0xEFCDAB89, 0x98BADCFE, 0x10325476, 0xC3D2E1F0) [0x61626380, 0x00000000, 0x00000000, 0x00000000, 0x00000000, 0x00000000, 0x00000000, 0x00000000, 0x00000000, 0x00000000, 0x00000000, 0x00000000, 0x00000000, 0x00000000, 0x00000000, 0x00000018] = (0xa9993e36, 0x4706816a, 0xba3e2571, 0x7850c26c, 0x9cd0d89d)"
  by (simp add: sha1_block_def sha1_sched.simps rol_def sha1_f_def sha1_k_def)

lemma sha1_abc: "SHA1 (bytes ''abc'') = [0xa9, 0x99, 0x3e, 0x36, 0x47, 0x06, 0x81, 0x6a, 0xba, 0x3e, 0x25, 0x71, 0x78, 0x50, 0xc2, 0x6c, 0x9c, 0xd0, 0xd8, 0x9d]"
proof -
  have m: "bytes ''abc'' = [0x61, 0x62, 0x63]" by (simp add: bytes_def)
  have b: "sha1_blocks (0x67452301, 0xEFCDAB89, 0x98BADCFE, 0x10325476, 0xC3D2E1F0) [0x61626380, 0x00000000, 0x00000000, 0x00000000, 0x00000000, 0x00000000, 0x00000000, 0x00000000, 0x00000000, 0x00000000, 0x00000000, 0x00000000, 0x00000000, 0x00000000, 0x00000000, 0x00000018] = (0xa9993e36, 0x4706816a, 0xba3e2571, 0x7850c26c, 0x9cd0d89d)"
    by (subst sha1_blocks.simps, simp add: sha1_abc_block, subst sha1_blocks.simps, simp)
  show ?thesis
    unfolding SHA1_def m sha1_abc_words b by (simp add: bytes_of_def)
qed

lemma SHA1_length: "length (SHA1 m) = 20"
  by (simp add: SHA1_def bytes_of_def split: prod.split)

lemma hex_digit_lower: "hex_digit n \<in> set ''0123456789abcdef''"
proof -
  have "n mod 16 < length ''0123456789abcdef''" by simp
  then show ?thesis unfolding hex_digit_def by (rule nth_mem)
qed

lemma hex_concat_length: "length (concat (map hex2 xs)) = 2 * length xs"
  by (induction xs) (simp_all add: hex2_def)

lemma hex_concat_lower: "set (concat (map hex2 xs)) \<subseteq> set ''0123456789abcdef''"
proof (induction xs)
  case Nil
  show ?case by simp
next
  case (Cons x xs)
  have "set (hex2 x) \<subseteq> set ''0123456789abcdef''"
    using hex_digit_lower [of "unat x div 16"] hex_digit_lower [of "unat x mod 16"]
    unfolding hex2_def by auto
  with Cons show ?case by simp
qed

lemma of_char_u8_inj: "(of_char c :: u8) = of_char d \<Longrightarrow> c = d"
proof -
  assume "(of_char c :: u8) = of_char d"
  then have "(of_nat (of_char c) :: u8) = of_nat (of_char d)"
    by (simp only: of_nat_of_char)
  then have "unat (of_nat (of_char c) :: u8) = unat (of_nat (of_char d) :: u8)" by simp
  then have "(of_char c :: nat) mod 256 = of_char d mod 256"
    by (simp add: unat_of_nat)
  then have "(of_char c :: nat) = of_char d" by (simp only: of_char_mod_256)
  then show "c = d" by simp
qed

lemma bytes_inj: "bytes a = bytes b \<Longrightarrow> a = b"
  unfolding bytes_def
  by (induction a arbitrary: b) (auto dest: of_char_u8_inj)

lemma separator_unambiguous:
  assumes "CHR 0x00 \<notin> set r1" and "CHR 0x00 \<notin> set r2"
    and "bytes r1 @ [0] @ bytes b1 = bytes r2 @ [0] @ bytes b2"
  shows "r1 = r2 \<and> b1 = b2"
proof -
  have z: "(of_char (CHR 0x00) :: u8) = 0" by simp
  have "bytes (r1 @ CHR 0x00 # b1) = bytes (r2 @ CHR 0x00 # b2)"
    using assms(3) by (simp add: bytes_def)
  then have eq: "r1 @ CHR 0x00 # b1 = r2 @ CHR 0x00 # b2" by (rule bytes_inj)
  have "takeWhile (\<lambda>x. x \<noteq> CHR 0x00) (r1 @ CHR 0x00 # b1) = r1"
       "takeWhile (\<lambda>x. x \<noteq> CHR 0x00) (r2 @ CHR 0x00 # b2) = r2"
    using assms(1,2) by (simp_all add: takeWhile_upto)
  with eq have "r1 = r2" by simp
  with eq show ?thesis by simp
qed

lemma get_local_dir_eq:
  "get_local_dir e remote branch =
     (if alloc_fails e Alloc_localdir then None
      else Some (system_default_directory e @ ''/'' @
                 concat (map hex2 (take 8 (SHA1 (bytes remote @ [0] @ bytes branch))))))"
  by (simp add: get_local_dir_def format_string_def)

lemma address_repo1:
  "concat (map hex2 (take 8 (SHA1 (bytes ''repo1'' @ [0] @ bytes ''branch'')))) = ''db380e51e6e4c225''"
  unfolding sha1_repo1 by (simp add: hex2_def hex_digit_def)

lemma address_repo:
  "concat (map hex2 (take 8 (SHA1 (bytes ''repo'' @ [0] @ bytes ''1branch'')))) = ''07d344191111a0e7''"
  unfolding sha1_repo by (simp add: hex2_def hex_digit_def)

text \<open>
  C5. The cache address is a function of the remote, the branch and the cache root: it
  is the root, a slash and sixteen lowercase hexadecimal digits, the first eight bytes
  of the SHA-1 digest of the remote, a zero byte and the branch (and NULL when the
  allocation of the result fails). Two pairs of C strings give the same digest input
  only when they are the same pair, and the addresses of (repo1, branch) and
  (repo, 1branch) differ.
\<close>

theorem cache_address:
  "get_local_dir e remote branch =
     (if alloc_fails e Alloc_localdir then None
      else Some (system_default_directory e @ ''/'' @
                 concat (map hex2 (take 8 (SHA1 (bytes remote @ [0] @ bytes branch)))))) \<and>
   length (concat (map hex2 (take 8 (SHA1 m)))) = 16 \<and>
   set (concat (map hex2 (take 8 (SHA1 m)))) \<subseteq> set ''0123456789abcdef'' \<and>
   (CHR 0x00 \<notin> set r1 \<and> CHR 0x00 \<notin> set r2 \<and>
    bytes r1 @ [0] @ bytes b1 = bytes r2 @ [0] @ bytes b2 \<longrightarrow> r1 = r2 \<and> b1 = b2) \<and>
   get_local_dir e ''repo1'' ''branch'' =
     (if alloc_fails e Alloc_localdir then None
      else Some (system_default_directory e @ ''/db380e51e6e4c225'')) \<and>
   get_local_dir e ''repo'' ''1branch'' =
     (if alloc_fails e Alloc_localdir then None
      else Some (system_default_directory e @ ''/07d344191111a0e7'')) \<and>
   (\<not> alloc_fails e Alloc_localdir \<longrightarrow>
      get_local_dir e ''repo1'' ''branch'' \<noteq> get_local_dir e ''repo'' ''1branch'')"
proof -
  have l: "length (concat (map hex2 (take 8 (SHA1 m)))) = 16"
    by (simp add: hex_concat_length SHA1_length)
  have a: "get_local_dir e ''repo1'' ''branch'' =
     (if alloc_fails e Alloc_localdir then None
      else Some (system_default_directory e @ ''/db380e51e6e4c225''))"
    unfolding get_local_dir_eq address_repo1 by simp
  have b: "get_local_dir e ''repo'' ''1branch'' =
     (if alloc_fails e Alloc_localdir then None
      else Some (system_default_directory e @ ''/07d344191111a0e7''))"
    unfolding get_local_dir_eq address_repo by simp
  have d: "\<not> alloc_fails e Alloc_localdir \<longrightarrow>
      get_local_dir e ''repo1'' ''branch'' \<noteq> get_local_dir e ''repo'' ''1branch''"
    unfolding a b by simp
  from get_local_dir_eq [of e remote branch] l hex_concat_lower [of "take 8 (SHA1 m)"]
    separator_unambiguous [of r1 r2 b1 b2] a b d
  show ?thesis by blast
qed

theorem cache_address_witness:
  "\<not> alloc_fails env0 Alloc_localdir \<and>
   get_local_dir env0 ''repo1'' ''branch'' = Some ''/home/diver/.subsurface/db380e51e6e4c225'' \<and>
   get_local_dir env0 ''repo'' ''1branch'' = Some ''/home/diver/.subsurface/07d344191111a0e7'' \<and>
   get_local_dir env0 ''repo1'' ''branch'' \<noteq> get_local_dir env0 ''repo'' ''1branch'' \<and>
   CHR 0x00 \<notin> set ''repo'' \<and>
   bytes ''repo'' @ [0] @ bytes ''branch'' = bytes ''repo'' @ [0] @ bytes ''branch'' \<and>
   bytes ''repo1'' @ [0] @ bytes ''branch'' \<noteq> bytes ''repo'' @ [0] @ bytes ''1branch''"
proof -
  have n: "\<not> alloc_fails env0 Alloc_localdir" by (simp add: env0_def)
  have r: "system_default_directory env0 = ''/home/diver/.subsurface''" by (simp add: env0_def)
  have z: "CHR 0x00 \<notin> set ''repo''" "CHR 0x00 \<notin> set ''repo1''" by simp_all
  have ne: "\<not> (''repo1'' = ''repo'' \<and> ''branch'' = ''1branch'')" by simp
  note t = cache_address [of env0 "''repo1''" "''branch''" "[]" "''repo1''" "''repo''" "''branch''" "''1branch''"]
  from t z ne have x: "bytes ''repo1'' @ [0] @ bytes ''branch'' \<noteq> bytes ''repo'' @ [0] @ bytes ''1branch''"
    by blast
  note t5 = t [THEN conjunct2, THEN conjunct2, THEN conjunct2, THEN conjunct2, THEN conjunct1]
  note t6 = t [THEN conjunct2, THEN conjunct2, THEN conjunct2, THEN conjunct2, THEN conjunct2, THEN conjunct1]
  from t5 n have a: "get_local_dir env0 ''repo1'' ''branch'' = Some (system_default_directory env0 @ ''/db380e51e6e4c225'')"
    by simp
  from t6 n have b: "get_local_dir env0 ''repo'' ''1branch'' = Some (system_default_directory env0 @ ''/07d344191111a0e7'')"
    by simp
  from t n have d: "get_local_dir env0 ''repo1'' ''branch'' \<noteq> get_local_dir env0 ''repo'' ''1branch''"
    by blast
  have a': "get_local_dir env0 ''repo1'' ''branch'' = Some ''/home/diver/.subsurface/db380e51e6e4c225''"
    unfolding a r by simp
  have b': "get_local_dir env0 ''repo'' ''1branch'' = Some ''/home/diver/.subsurface/07d344191111a0e7''"
    unfolding b r by simp
  from n a' b' d z(1) x show ?thesis by blast
qed

end
